theory Spec2Isabelle
  imports Complex_Main
begin

section \<open>Numbers, vectors and typed arrays\<close>

text \<open>
  JavaScript numbers are modelled as exact reals (integers where the code counts), so
  the rounding of double and single precision is not part of the model. A vertex
  attribute is a tuple of components, as the arrays of fixed size the evaluators return.
\<close>

type_synonym vec3 = "real \<times> real \<times> real"
type_synonym vec2 = "real \<times> real"

datatype error = RangeError | TypeError

text \<open>The two constants of the WebGL context \<open>gl\<close> that the code reads.\<close>

datatype GLenum = TRIANGLES | FLOAT

text \<open>
  \<open>new Float32Array(n)\<close>: an array of \<open>n\<close> zeros of fixed length; a negative length
  raises a RangeError. A store \<open>a[k] = x\<close> into a typed array is dropped when \<open>k\<close> is
  out of range, which is what \<open>list_update\<close> does.
\<close>

definition Float32Array :: "int \<Rightarrow> error + real list" where
  "Float32Array n = (if n < 0 then Inl RangeError else Inr (replicate (nat n) 0))"

text \<open>The remainder operator \<open>%\<close> of JavaScript: the sign follows the dividend.\<close>

definition js_rem :: "int \<Rightarrow> int \<Rightarrow> int" where
  "js_rem a b = (if a < 0 then - ((- a) mod \<bar>b\<bar>) else a mod \<bar>b\<bar>)"

section \<open>VertexBasedShape\<close>

record VertexAttributeBuffer =
  attrType :: string
  dataType :: GLenum
  numElements :: nat
  dataArray :: "real list"
  numVertices_buf :: "real option"

text \<open>
  Modelled from the spec: the constructor \<open>VertexAttributeBuffer\<close> is not among the
  sources. A vertex attribute buffer is a named, typed numeric array with a component
  count, and its vertex count is the one its data implies: the length of the data
  divided by the component count. With a component count of zero the quotient is not a
  finite number (\<open>None\<close>), which differs from every declared count.
\<close>

definition VertexAttributeBuffer_new ::
  "string \<Rightarrow> GLenum \<Rightarrow> nat \<Rightarrow> real list \<Rightarrow> VertexAttributeBuffer" where
  "VertexAttributeBuffer_new aT dT nE dA =
     \<lparr>attrType = aT, dataType = dT, numElements = nE, dataArray = dA,
      numVertices_buf = (if nE = 0 then None else Some (real (length dA) / real nE))\<rparr>"

record VertexBasedShape =
  vertexBuffers :: "VertexAttributeBuffer list"
  elementBuffer :: "nat list option"
  primitiveType :: GLenum
  numVertices :: real

definition VertexBasedShape_new :: "GLenum \<Rightarrow> real \<Rightarrow> VertexBasedShape" where
  "VertexBasedShape_new pT nV =
     \<lparr>vertexBuffers = [], elementBuffer = None, primitiveType = pT, numVertices = nV\<rparr>"

text \<open>
  A line written by \<open>window.console.log\<close>: the warning of \<open>addVertexAttribute\<close> with
  the buffer's vertex count, the shape's vertex count and the attribute's name.
\<close>

datatype console_message = Warning_wrong_number_of_vertices "real option" real string

text \<open>
  \<open>addVertexAttribute\<close> returns the shape with the buffer pushed and the lines it
  logged.
\<close>

definition addVertexAttribute ::
  "VertexBasedShape \<Rightarrow> string \<Rightarrow> GLenum \<Rightarrow> nat \<Rightarrow> real list
     \<Rightarrow> VertexBasedShape \<times> console_message list" where
  "addVertexAttribute sh aT dT nE dA =
     (let buf = VertexAttributeBuffer_new aT dT nE dA;
          sh' = sh\<lparr>vertexBuffers := vertexBuffers sh @ [buf]\<rparr>
      in (sh', if Some (numVertices sh') \<noteq> numVertices_buf buf
               then [Warning_wrong_number_of_vertices (numVertices_buf buf) (numVertices sh') aT]
               else []))"

section \<open>GenerateParametricSurface\<close>

text \<open>
  The surface object \<open>obj\<close>: each of its three methods may be undefined. A method takes
  the two parameters and the state of the program around it (type \<open>'g\<close>), which it may
  read and change, and returns its vector with the new state.
\<close>

record 'g Surface =
  position :: "(real \<Rightarrow> real \<Rightarrow> 'g \<Rightarrow> vec3 \<times> 'g) option"
  normal :: "(real \<Rightarrow> real \<Rightarrow> 'g \<Rightarrow> vec3 \<times> 'g) option"
  texCoord :: "(real \<Rightarrow> real \<Rightarrow> 'g \<Rightarrow> vec2 \<times> 'g) option"

text \<open>The local variables of one call that \<open>makeVertex\<close> closes over.\<close>

record gps_vars =
  vposition :: "real list"
  vnormal :: "real list"
  vcolor :: "real list"
  vtexcoord :: "real list"
  pos_i :: nat
  col_i :: nat
  nor_i :: nat
  tex_i :: nat

text \<open>The four blocks of \<open>makeVertex\<close>, in the order of the source.\<close>

definition setTexCoord :: "'g Surface \<Rightarrow> real \<Rightarrow> real \<Rightarrow> gps_vars \<times> 'g \<Rightarrow> gps_vars \<times> 'g" where
  "setTexCoord obj uu vv = (\<lambda>(s, g).
     case texCoord obj of
       None \<Rightarrow> (s, g)
     | Some f \<Rightarrow>
         (case f uu vv g of ((t0, t1), g') \<Rightarrow>
            (s\<lparr>vtexcoord := (vtexcoord s)[tex_i s := t0, tex_i s + 1 := t1],
               tex_i := tex_i s + 2\<rparr>, g')))"

definition setPosition :: "'g Surface \<Rightarrow> real \<Rightarrow> real \<Rightarrow> gps_vars \<times> 'g \<Rightarrow> gps_vars \<times> 'g" where
  "setPosition obj uu vv = (\<lambda>(s, g).
     case position obj of
       None \<Rightarrow> (s, g)
     | Some f \<Rightarrow>
         (case f uu vv g of ((p0, p1, p2), g') \<Rightarrow>
            (s\<lparr>vposition := (vposition s)[pos_i s := p0, pos_i s + 1 := p1, pos_i s + 2 := p2],
               pos_i := pos_i s + 3\<rparr>, g')))"

definition setNormal :: "'g Surface \<Rightarrow> real \<Rightarrow> real \<Rightarrow> gps_vars \<times> 'g \<Rightarrow> gps_vars \<times> 'g" where
  "setNormal obj uu vv = (\<lambda>(s, g).
     case normal obj of
       None \<Rightarrow> (s, g)
     | Some f \<Rightarrow>
         (case f uu vv g of ((n0, n1, n2), g') \<Rightarrow>
            (s\<lparr>vnormal := (vnormal s)[nor_i s := n0, nor_i s + 1 := n1, nor_i s + 2 := n2],
               nor_i := nor_i s + 3\<rparr>, g')))"

definition setColor :: "vec3 option \<Rightarrow> gps_vars \<times> 'g \<Rightarrow> gps_vars \<times> 'g" where
  "setColor color = (\<lambda>(s, g).
     case color of
       None \<Rightarrow> (s, g)
     | Some (c0, c1, c2) \<Rightarrow>
         (s\<lparr>vcolor := (vcolor s)[col_i s := c0, col_i s + 1 := c1, col_i s + 2 := c2],
            col_i := col_i s + 3\<rparr>, g))"

definition makeVertex ::
  "'g Surface \<Rightarrow> real \<Rightarrow> real \<Rightarrow> vec3 option \<Rightarrow> gps_vars \<times> 'g \<Rightarrow> gps_vars \<times> 'g" where
  "makeVertex obj uu vv color sg =
     setColor color (setNormal obj uu vv (setPosition obj uu vv (setTexCoord obj uu vv sg)))"

text \<open>The four parameter values of the patch \<open>(i, j)\<close>.\<close>

definition u0_of :: "int \<Rightarrow> real \<Rightarrow> real \<Rightarrow> int \<Rightarrow> real" where
  "u0_of M umin umax i = umin + (of_int i - 1.0) * (umax - umin) / of_int M"

definition v0_of :: "int \<Rightarrow> real \<Rightarrow> real \<Rightarrow> int \<Rightarrow> real" where
  "v0_of N vmin vmax j = vmin + (of_int j - 1.0) * (vmax - vmin) / of_int N"

definition u_of :: "int \<Rightarrow> real \<Rightarrow> real \<Rightarrow> int \<Rightarrow> real" where
  "u_of M umin umax i = umin + of_int i * (umax - umin) / of_int M"

definition v_of :: "int \<Rightarrow> real \<Rightarrow> real \<Rightarrow> int \<Rightarrow> real" where
  "v_of N vmin vmax j = vmin + of_int j * (vmax - vmin) / of_int N"

text \<open>The body of the two loops: the six vertices of the patch \<open>(i, j)\<close>.\<close>

definition patch ::
  "'g Surface \<Rightarrow> int \<Rightarrow> int \<Rightarrow> real \<Rightarrow> real \<Rightarrow> real \<Rightarrow> real \<Rightarrow> vec3 option \<Rightarrow> vec3 option
     \<Rightarrow> int \<Rightarrow> int \<Rightarrow> gps_vars \<times> 'g \<Rightarrow> gps_vars \<times> 'g" where
  "patch obj M N umin umax vmin vmax col1 col2 i j sg =
     (let u0 = u0_of M umin umax i;
          v0 = v0_of N vmin vmax j;
          u = u_of M umin umax i;
          v = v_of N vmin vmax j;
          color = (if js_rem (i + j) 2 = 0 then col1 else col2);
          sg1 = makeVertex obj u0 v color sg;
          sg2 = makeVertex obj u0 v0 color sg1;
          sg3 = makeVertex obj u v0 color sg2;
          sg4 = makeVertex obj u v color sg3;
          sg5 = makeVertex obj u0 v color sg4;
          sg6 = makeVertex obj u v0 color sg5
      in sg6)"

function loop_j ::
  "'g Surface \<Rightarrow> int \<Rightarrow> int \<Rightarrow> real \<Rightarrow> real \<Rightarrow> real \<Rightarrow> real \<Rightarrow> vec3 option \<Rightarrow> vec3 option
     \<Rightarrow> int \<Rightarrow> int \<Rightarrow> gps_vars \<times> 'g \<Rightarrow> gps_vars \<times> 'g" where
  "loop_j obj M N umin umax vmin vmax col1 col2 i j sg =
     (if j \<le> N
      then loop_j obj M N umin umax vmin vmax col1 col2 i (j + 1)
             (patch obj M N umin umax vmin vmax col1 col2 i j sg)
      else sg)"
  by pat_completeness auto
termination
  by (relation "measure (\<lambda>(obj, M, N, umin, umax, vmin, vmax, col1, col2, i, j, sg). nat (N + 1 - j))")
    auto

function loop_i ::
  "'g Surface \<Rightarrow> int \<Rightarrow> int \<Rightarrow> real \<Rightarrow> real \<Rightarrow> real \<Rightarrow> real \<Rightarrow> vec3 option \<Rightarrow> vec3 option
     \<Rightarrow> int \<Rightarrow> gps_vars \<times> 'g \<Rightarrow> gps_vars \<times> 'g" where
  "loop_i obj M N umin umax vmin vmax col1 col2 i sg =
     (if i \<le> M
      then loop_i obj M N umin umax vmin vmax col1 col2 (i + 1)
             (loop_j obj M N umin umax vmin vmax col1 col2 i 1 sg)
      else sg)"
  by pat_completeness auto
termination
  by (relation "measure (\<lambda>(obj, M, N, umin, umax, vmin, vmax, col1, col2, i, sg). nat (M + 1 - i))")
    auto

declare loop_j.simps [simp del] loop_i.simps [simp del]

text \<open>
  What a call leaves behind: the shape it stores in \<open>obj.shape\<close>, its local variables
  after the loops, the lines it logged and the state of the program around it.
\<close>

record 'g gps_result =
  shape :: VertexBasedShape
  locals :: gps_vars
  console :: "console_message list"
  env :: 'g

definition GenerateParametricSurface ::
  "'g Surface \<Rightarrow> int \<Rightarrow> int \<Rightarrow> real \<Rightarrow> real \<Rightarrow> real \<Rightarrow> real \<Rightarrow> vec3 option \<Rightarrow> vec3 option
     \<Rightarrow> 'g \<Rightarrow> error + 'g gps_result" where
  "GenerateParametricSurface obj M N umin umax vmin vmax col1 col2 g =
     (let nV = M * N * 6;
          shape0 = VertexBasedShape_new TRIANGLES (of_int nV)
      in case Float32Array (nV * 3) of Inl e \<Rightarrow> Inl e | Inr vpos \<Rightarrow>
        (case Float32Array (nV * 3) of Inl e \<Rightarrow> Inl e | Inr vnor \<Rightarrow>
        (case Float32Array (nV * 3) of Inl e \<Rightarrow> Inl e | Inr vcol \<Rightarrow>
        (case Float32Array (nV * 2) of Inl e \<Rightarrow> Inl e | Inr vtex \<Rightarrow>
         (let s0 = \<lparr>vposition = vpos, vnormal = vnor, vcolor = vcol, vtexcoord = vtex,
                    pos_i = 0, col_i = 0, nor_i = 0, tex_i = 0\<rparr>;
              (s, g') = loop_i obj M N umin umax vmin vmax col1 col2 1 (s0, g);
              (sh1, log1) = (if position obj \<noteq> None
                             then addVertexAttribute shape0 ''vertexPosition'' FLOAT 3 (vposition s)
                             else (shape0, []));
              (sh2, log2) = (if normal obj \<noteq> None
                             then addVertexAttribute sh1 ''vertexNormal'' FLOAT 3 (vnormal s)
                             else (sh1, []));
              (sh3, log3) = (if texCoord obj \<noteq> None
                             then addVertexAttribute sh2 ''vertexTexCoord'' FLOAT 2 (vtexcoord s)
                             else (sh2, []));
              (sh4, log4) = (if col1 \<noteq> None \<and> col2 \<noteq> None
                             then addVertexAttribute sh3 ''vertexColor'' FLOAT 3 (vcolor s)
                             else (sh3, []))
          in Inr \<lparr>shape = sh4, locals = s, console = log1 @ log2 @ log3 @ log4, env = g'\<rparr>)))))"

section \<open>Torus\<close>

text \<open>
  The variable \<open>h\<close> of \<open>normal\<close> is assigned without a declaration, so it is a global
  variable of the program: the state around the torus.
\<close>

record js_globals =
  h :: real

definition Torus_position :: "real \<Rightarrow> real \<Rightarrow> real \<Rightarrow> real \<Rightarrow> js_globals \<Rightarrow> vec3 \<times> js_globals" where
  "Torus_position radius radius2 t p g =
     (((radius + radius2 * cos p) * cos t,
       (radius + radius2 * cos p) * sin t,
       radius2 * sin p), g)"

definition Torus_normal :: "real \<Rightarrow> real \<Rightarrow> js_globals \<Rightarrow> vec3 \<times> js_globals" where
  "Torus_normal t p g =
     (let g' = g\<lparr>h := 1.0\<rparr>
      in ((cos t * cos p * h g', sin t * cos p * h g', sin p * h g'), g'))"

definition Torus_texCoord :: "real \<Rightarrow> real \<Rightarrow> js_globals \<Rightarrow> vec2 \<times> js_globals" where
  "Torus_texCoord u v g = ((u / (2.0 * pi), v / (2.0 * pi)), g)"

definition Torus_obj :: "real \<Rightarrow> real \<Rightarrow> js_globals Surface" where
  "Torus_obj radius radius2 =
     \<lparr>position = Some (Torus_position radius radius2),
      normal = Some Torus_normal,
      texCoord = Some Torus_texCoord\<rparr>"

definition Torus ::
  "real \<Rightarrow> real \<Rightarrow> int \<Rightarrow> int \<Rightarrow> vec3 option \<Rightarrow> vec3 option \<Rightarrow> js_globals
     \<Rightarrow> error + js_globals gps_result" where
  "Torus radius radius2 N M col1 col2 g =
     GenerateParametricSurface (Torus_obj radius radius2) M N 0 (2 * pi) 0 (2 * pi) col1 col2 g"

text \<open>The Euclidean length of a vector, for the statements about normals.\<close>

definition euclidean_length :: "vec3 \<Rightarrow> real" where
  "euclidean_length = (\<lambda>(x, y, z). sqrt (x * x + y * y + z * z))"

section \<open>Sphere\<close>

text \<open>
  The four lists the constructor pushes to. The function \<open>vec3.normalize\<close> belongs to
  a library outside the repository and is a parameter of the model. The colours are
  indexed without a test, so an undefined colour raises a TypeError at the first patch
  that reads it.
\<close>

record sphere_lists =
  vList :: "real list"
  nList :: "real list"
  tList :: "real list"
  cList :: "real list"

function sphere_loop_k ::
  "vec3 option \<Rightarrow> vec3 option \<Rightarrow> int \<Rightarrow> int \<Rightarrow> nat \<Rightarrow> real list \<Rightarrow> error + real list" where
  "sphere_loop_k c1 c2 i j k cl =
     (if k < 6
      then (if js_rem i 2 + js_rem j 2 = 1
            then (case c1 of
                    None \<Rightarrow> Inl TypeError
                  | Some (a0, a1, a2) \<Rightarrow> sphere_loop_k c1 c2 i j (k + 1) (cl @ [a0] @ [a1] @ [a2]))
            else (case c2 of
                    None \<Rightarrow> Inl TypeError
                  | Some (b0, b1, b2) \<Rightarrow> sphere_loop_k c1 c2 i j (k + 1) (cl @ [b0] @ [b1] @ [b2])))
      else Inr cl)"
  by pat_completeness auto
termination
  by (relation "measure (\<lambda>(c1, c2, i, j, k, cl). 6 - k)") auto

definition sphere_patch ::
  "(vec3 \<Rightarrow> vec3) \<Rightarrow> real \<Rightarrow> int \<Rightarrow> int \<Rightarrow> vec3 option \<Rightarrow> vec3 option \<Rightarrow> int \<Rightarrow> int
     \<Rightarrow> sphere_lists \<Rightarrow> error + sphere_lists" where
  "sphere_patch vec3_normalize r N M c1 c2 i j ls =
     (let u1 = pi / of_int N * of_int i;
          v1 = pi * 2 / of_int M * of_int j;
          u2 = pi / of_int N * (of_int i - 1);
          v2 = pi * 2 / of_int M * (of_int j - 1);
          x1 = (r * sin u1) * cos v1;
          x2 = (r * sin u1) * cos v2;
          x3 = (r * sin u2) * cos v1;
          x4 = (r * sin u2) * cos v2;
          tx1 = u1 / pi;
          tx2 = u1 / pi;
          tx3 = u2 / pi;
          tx4 = u2 / pi;
          y1 = (r * sin u1) * sin v1;
          y2 = (r * sin u1) * sin v2;
          y3 = (r * sin u2) * sin v1;
          y4 = (r * sin u2) * sin v2;
          ty1 = v1 / (2.0 * pi);
          ty2 = v2 / (2.0 * pi);
          ty3 = v1 / (2.0 * pi);
          ty4 = v2 / (2.0 * pi);
          z1 = r * cos u1;
          z2 = r * cos u1;
          z3 = r * cos u2;
          z4 = r * cos u2;
          vl = vList ls @ [x1, y1, z1, x3, y3, z3, x4, y4, z4, x1, y1, z1, x2, y2, z2, x4, y4, z4];
          (n10, n11, n12) = vec3_normalize (x1, y1, z1);
          (n20, n21, n22) = vec3_normalize (x2, y2, z2);
          (n30, n31, n32) = vec3_normalize (x3, y3, z3);
          (n40, n41, n42) = vec3_normalize (x4, y4, z4);
          nl = nList ls @ [n10, n11, n12, n30, n31, n32, n40, n41, n42,
                           n10, n11, n12, n20, n21, n22, n40, n41, n42];
          tl = tList ls @ [ty1 + 0.25, - tx1, ty3 + 0.25, - tx3, ty4 + 0.25, - tx4,
                           ty1 + 0.25, - tx1, ty2 + 0.25, - tx2, ty4 + 0.25, - tx4]
      in case sphere_loop_k c1 c2 i j 0 (cList ls) of
           Inl e \<Rightarrow> Inl e
         | Inr cl \<Rightarrow> Inr \<lparr>vList = vl, nList = nl, tList = tl, cList = cl\<rparr>)"

function sphere_loop_j ::
  "(vec3 \<Rightarrow> vec3) \<Rightarrow> real \<Rightarrow> int \<Rightarrow> int \<Rightarrow> vec3 option \<Rightarrow> vec3 option \<Rightarrow> int \<Rightarrow> int
     \<Rightarrow> sphere_lists \<Rightarrow> error + sphere_lists" where
  "sphere_loop_j vec3_normalize r N M c1 c2 i j ls =
     (if j \<le> M
      then (case sphere_patch vec3_normalize r N M c1 c2 i j ls of
              Inl e \<Rightarrow> Inl e
            | Inr ls' \<Rightarrow> sphere_loop_j vec3_normalize r N M c1 c2 i (j + 1) ls')
      else Inr ls)"
  by pat_completeness auto
termination
  by (relation "measure (\<lambda>(vec3_normalize, r, N, M, c1, c2, i, j, ls). nat (M + 1 - j))") auto

function sphere_loop_i ::
  "(vec3 \<Rightarrow> vec3) \<Rightarrow> real \<Rightarrow> int \<Rightarrow> int \<Rightarrow> vec3 option \<Rightarrow> vec3 option \<Rightarrow> int
     \<Rightarrow> sphere_lists \<Rightarrow> error + sphere_lists" where
  "sphere_loop_i vec3_normalize r N M c1 c2 i ls =
     (if i \<le> N
      then (case sphere_loop_j vec3_normalize r N M c1 c2 i 1 ls of
              Inl e \<Rightarrow> Inl e
            | Inr ls' \<Rightarrow> sphere_loop_i vec3_normalize r N M c1 c2 (i + 1) ls')
      else Inr ls)"
  by pat_completeness auto
termination
  by (relation "measure (\<lambda>(vec3_normalize, r, N, M, c1, c2, i, ls). nat (N + 1 - i))") auto

declare sphere_loop_k.simps [simp del] sphere_loop_j.simps [simp del]
  sphere_loop_i.simps [simp del]

text \<open>The constructor: the shape it stores in \<open>this.shape\<close> and the lines it logged.\<close>

definition Sphere ::
  "(vec3 \<Rightarrow> vec3) \<Rightarrow> real \<Rightarrow> int \<Rightarrow> int \<Rightarrow> vec3 option \<Rightarrow> vec3 option
     \<Rightarrow> error + VertexBasedShape \<times> console_message list" where
  "Sphere vec3_normalize r N M c1 c2 =
     (case sphere_loop_i vec3_normalize r N M c1 c2 1
             \<lparr>vList = [], nList = [], tList = [], cList = []\<rparr> of
        Inl e \<Rightarrow> Inl e
      | Inr ls \<Rightarrow>
          (let vnormal' = nList ls;
               vtexcoord' = tList ls;
               vposition' = vList ls;
               vcolor' = cList ls;
               shape0 = VertexBasedShape_new TRIANGLES (real (length vposition') / 3);
               (sh1, log1) = addVertexAttribute shape0 ''vertexPosition'' FLOAT 3 vposition';
               (sh2, log2) = addVertexAttribute sh1 ''vertexColor'' FLOAT 3 vcolor';
               (sh3, log3) = addVertexAttribute sh2 ''vertexNormal'' FLOAT 3 vnormal';
               (sh4, log4) = addVertexAttribute sh3 ''vertexTexCoord'' FLOAT 2 vtexcoord'
           in Inr (sh4, log1 @ log2 @ log3 @ log4)))"

section \<open>Notions for the statements\<close>

text \<open>
  The components of a vector as the run of numbers a stream holds for it.
\<close>

definition vec3_list :: "vec3 \<Rightarrow> real list" where
  "vec3_list = (\<lambda>(a, b, c). [a, b, c])"

definition vec2_list :: "vec2 \<Rightarrow> real list" where
  "vec2_list = (\<lambda>(a, b). [a, b])"

text \<open>
  The pairs \<open>(i, j)\<close> in the order two nested loops from 1 visit them: \<open>i\<close> over
  \<open>1..A\<close> outside, \<open>j\<close> over \<open>1..B\<close> inside.
\<close>

definition grid :: "int \<Rightarrow> int \<Rightarrow> (int \<times> int) list" where
  "grid A B = concat (map (\<lambda>i. map (Pair i) [1..B]) [1..A])"

text \<open>
  The array \<open>a\<close> with write index \<open>k\<close> holds the numbers \<open>w\<close> stored so far: the index
  is their count, and the array is \<open>w\<close> followed by zeros, cut off at its fixed length
  (a store past the end is dropped).
\<close>

definition written :: "real list \<Rightarrow> nat \<Rightarrow> real list \<Rightarrow> bool" where
  "written a k w \<longleftrightarrow> k = length w \<and> a = take (length a) (w @ replicate (length a) 0)"

text \<open>
  The methods of the surface that are defined return the vectors \<open>P\<close>, \<open>Q\<close> and \<open>T\<close>, in
  every state of the program.
\<close>

definition surface_values ::
  "'g Surface \<Rightarrow> (real \<Rightarrow> real \<Rightarrow> vec3) \<Rightarrow> (real \<Rightarrow> real \<Rightarrow> vec3) \<Rightarrow> (real \<Rightarrow> real \<Rightarrow> vec2) \<Rightarrow> bool" where
  "surface_values obj P Q T \<longleftrightarrow>
     (\<forall>f u v g. position obj = Some f \<longrightarrow> fst (f u v g) = P u v) \<and>
     (\<forall>f u v g. normal obj = Some f \<longrightarrow> fst (f u v g) = Q u v) \<and>
     (\<forall>f u v g. texCoord obj = Some f \<longrightarrow> fst (f u v g) = T u v)"

text \<open>
  What one vertex adds to each stream: nothing where the attribute is not supplied.
\<close>

definition emit_position :: "'g Surface \<Rightarrow> (real \<Rightarrow> real \<Rightarrow> vec3) \<Rightarrow> real \<times> real \<Rightarrow> real list" where
  "emit_position obj P = (\<lambda>(uu, vv). if position obj = None then [] else vec3_list (P uu vv))"

definition emit_normal :: "'g Surface \<Rightarrow> (real \<Rightarrow> real \<Rightarrow> vec3) \<Rightarrow> real \<times> real \<Rightarrow> real list" where
  "emit_normal obj Q = (\<lambda>(uu, vv). if normal obj = None then [] else vec3_list (Q uu vv))"

definition emit_texCoord :: "'g Surface \<Rightarrow> (real \<Rightarrow> real \<Rightarrow> vec2) \<Rightarrow> real \<times> real \<Rightarrow> real list" where
  "emit_texCoord obj T = (\<lambda>(uu, vv). if texCoord obj = None then [] else vec2_list (T uu vv))"

definition emit_color :: "vec3 option \<Rightarrow> real list" where
  "emit_color color = (case color of None \<Rightarrow> [] | Some c \<Rightarrow> vec3_list c)"

text \<open>
  The four arrays of a call with the numbers stored in each so far.
\<close>

definition streams :: "gps_vars \<Rightarrow> real list \<Rightarrow> real list \<Rightarrow> real list \<Rightarrow> real list \<Rightarrow> bool" where
  "streams s wp wn wt wc \<longleftrightarrow>
     written (vposition s) (pos_i s) wp \<and> written (vnormal s) (nor_i s) wn \<and>
     written (vtexcoord s) (tex_i s) wt \<and> written (vcolor s) (col_i s) wc"

text \<open>
  The six parameter pairs of the patch \<open>(i, j)\<close> as the specification lists them: the
  first triangle \<open>(u0, v)\<close>, \<open>(u0, v0)\<close>, \<open>(u, v0)\<close>, then the second \<open>(u, v)\<close>,
  \<open>(u0, v)\<close>, \<open>(u, v0)\<close>.
\<close>

definition patch_corners ::
  "int \<Rightarrow> int \<Rightarrow> real \<Rightarrow> real \<Rightarrow> real \<Rightarrow> real \<Rightarrow> int \<Rightarrow> int \<Rightarrow> (real \<times> real) list" where
  "patch_corners M N umin umax vmin vmax i j =
     (let u0 = umin + (of_int i - 1) * (umax - umin) / of_int M;
          u = umin + of_int i * (umax - umin) / of_int M;
          v0 = vmin + (of_int j - 1) * (vmax - vmin) / of_int N;
          v = vmin + of_int j * (vmax - vmin) / of_int N
      in [(u0, v), (u0, v0), (u, v0), (u, v), (u0, v), (u, v0)])"

text \<open>
  The colour of the patch \<open>(i, j)\<close> as the specification gives it.
\<close>

definition patch_color :: "vec3 option \<Rightarrow> vec3 option \<Rightarrow> int \<Rightarrow> int \<Rightarrow> vec3 option" where
  "patch_color col1 col2 i j = (if (i + j) mod 2 = 0 then col1 else col2)"

text \<open>
  The local variables of a call before the loops, for a vertex count that is not negative.
\<close>

definition gps_init :: "int \<Rightarrow> gps_vars" where
  "gps_init nV =
     \<lparr>vposition = replicate (nat (nV * 3)) 0, vnormal = replicate (nat (nV * 3)) 0,
      vcolor = replicate (nat (nV * 3)) 0, vtexcoord = replicate (nat (nV * 2)) 0,
      pos_i = 0, col_i = 0, nor_i = 0, tex_i = 0\<rparr>"

text \<open>
  The lengths of the four arrays.
\<close>

definition array_lengths :: "gps_vars \<Rightarrow> nat \<times> nat \<times> nat \<times> nat" where
  "array_lengths s =
     (length (vposition s), length (vnormal s), length (vcolor s), length (vtexcoord s))"

text \<open>
  The buffers a call leaves on the shape, from its arrays after the loops.
\<close>

definition attached :: "'g Surface \<Rightarrow> vec3 option \<Rightarrow> vec3 option \<Rightarrow> gps_vars \<Rightarrow> VertexAttributeBuffer list" where
  "attached obj col1 col2 s =
     (if position obj \<noteq> None
      then [VertexAttributeBuffer_new ''vertexPosition'' FLOAT 3 (vposition s)] else []) @
     (if normal obj \<noteq> None
      then [VertexAttributeBuffer_new ''vertexNormal'' FLOAT 3 (vnormal s)] else []) @
     (if texCoord obj \<noteq> None
      then [VertexAttributeBuffer_new ''vertexTexCoord'' FLOAT 2 (vtexcoord s)] else []) @
     (if col1 \<noteq> None \<and> col2 \<noteq> None
      then [VertexAttributeBuffer_new ''vertexColor'' FLOAT 3 (vcolor s)] else [])"

text \<open>A surface with a position method only, as an example.\<close>

definition flat_obj :: "unit Surface" where
  "flat_obj = \<lparr>position = Some (\<lambda>u v g. ((u, v, 0), g)), normal = None, texCoord = None\<rparr>"

text \<open>
  The methods of a surface are independent of the state of the program when the vector
  each returns is the same in every state (they may still change the state, as the
  normal of the torus does).
\<close>

definition state_independent :: "'g Surface \<Rightarrow> bool" where
  "state_independent obj \<longleftrightarrow>
     (\<forall>f u v g g'. position obj = Some f \<longrightarrow> fst (f u v g) = fst (f u v g')) \<and>
     (\<forall>f u v g g'. normal obj = Some f \<longrightarrow> fst (f u v g) = fst (f u v g')) \<and>
     (\<forall>f u v g g'. texCoord obj = Some f \<longrightarrow> fst (f u v g) = fst (f u v g'))"

text \<open>The colour the sphere gives the patch \<open>(i, j)\<close>, by the rule of the claim.\<close>

definition sphere_color :: "vec3 \<Rightarrow> vec3 \<Rightarrow> int \<Rightarrow> int \<Rightarrow> vec3" where
  "sphere_color c1 c2 i j = (if i mod 2 + j mod 2 = 1 then c1 else c2)"

section \<open>The warning of addVertexAttribute\<close>

text \<open>
  C6. When the vertex count that the data array implies (its length divided by the
  component count, or no finite number when the component count is zero) differs from
  the vertex count the shape declares, \<open>addVertexAttribute\<close> still returns normally:
  the new buffer, holding the data as supplied, is appended to \<open>vertexBuffers\<close>, the
  shape is otherwise unchanged, and exactly one warning is logged.
\<close>

theorem addVertexAttribute_mismatch:
  assumes "nE = 0 \<or> real (length dA) / real nE \<noteq> numVertices sh"
  shows "\<exists>buf. addVertexAttribute sh aT dT nE dA =
           (sh\<lparr>vertexBuffers := vertexBuffers sh @ [buf]\<rparr>,
            [Warning_wrong_number_of_vertices (numVertices_buf buf) (numVertices sh) aT]) \<and>
         attrType buf = aT \<and> dataType buf = dT \<and> numElements buf = nE \<and> dataArray buf = dA"
  using assms
  by (auto simp add: addVertexAttribute_def VertexAttributeBuffer_new_def Let_def)

theorem addVertexAttribute_mismatch_witness:
  "(3 = (0::nat) \<or>
      real (length [0, 0, 0 :: real]) / real 3 \<noteq> numVertices (VertexBasedShape_new TRIANGLES 6)) \<and>
   (\<exists>buf. addVertexAttribute (VertexBasedShape_new TRIANGLES 6) ''vertexPosition'' FLOAT 3 [0, 0, 0] =
           ((VertexBasedShape_new TRIANGLES 6)
              \<lparr>vertexBuffers := vertexBuffers (VertexBasedShape_new TRIANGLES 6) @ [buf]\<rparr>,
            [Warning_wrong_number_of_vertices (numVertices_buf buf)
               (numVertices (VertexBasedShape_new TRIANGLES 6)) ''vertexPosition'']) \<and>
         attrType buf = ''vertexPosition'' \<and> dataType buf = FLOAT \<and> numElements buf = 3 \<and>
         dataArray buf = [0, 0, 0])"
proof -
  have hyp: "3 = (0::nat) \<or>
      real (length [0, 0, 0 :: real]) / real 3 \<noteq> numVertices (VertexBasedShape_new TRIANGLES 6)"
    by (simp add: VertexBasedShape_new_def)
  from addVertexAttribute_mismatch [OF hyp] hyp show ?thesis by blast
qed

section \<open>The torus\<close>

text \<open>
  C8. The torus with radius 2 and tube radius 0.5 has \<open>Torus_position 2 0.5\<close> as its
  position method; at \<open>(t, p) = (0, 0)\<close> it returns \<open>(2.5, 0, 0)\<close> and at
  \<open>(pi / 2, 0)\<close> it returns \<open>(0, 2.5, 0)\<close>, in exact real arithmetic, and it leaves
  the state of the program as it was.
\<close>

theorem Torus_position_values:
  "position (Torus_obj 2 0.5) = Some (Torus_position 2 0.5) \<and>
   Torus_position 2 0.5 0 0 g = ((2.5, 0, 0), g) \<and>
   Torus_position 2 0.5 (pi / 2) 0 g = ((0, 2.5, 0), g)"
  by (simp add: Torus_obj_def Torus_position_def)

lemma cos_sin_unit:
  "(cos t * cos p) * (cos t * cos p) + (sin t * cos p) * (sin t * cos p) + sin p * sin p = (1::real)"
proof -
  have t1: "cos t * cos t + sin t * sin t = 1"
    by (rule sin_cos_squared_add3)
  have p1: "cos p * cos p + sin p * sin p = 1"
    by (rule sin_cos_squared_add3)
  have "(cos t * cos p) * (cos t * cos p) + (sin t * cos p) * (sin t * cos p) + sin p * sin p
      = (cos t * cos t + sin t * sin t) * (cos p * cos p) + sin p * sin p"
    by (simp only: algebra_simps)
  also have "\<dots> = 1"
    by (simp only: t1 mult_1 p1)
  finally show ?thesis .
qed

text \<open>
  C10. For every torus, every parameter pair and every state of the program before the
  call (whatever the global \<open>h\<close> held), the normal method returns
  \<open>(cos t * cos p, sin t * cos p, sin p)\<close>, a vector of Euclidean length 1, and leaves
  1 in \<open>h\<close>: the factor is assigned before it is read.
\<close>

theorem Torus_normal_unit:
  "normal (Torus_obj radius radius2) = Some Torus_normal \<and>
   fst (Torus_normal t p g) = (cos t * cos p, sin t * cos p, sin p) \<and>
   euclidean_length (fst (Torus_normal t p g)) = 1 \<and>
   h (snd (Torus_normal t p g)) = 1"
  by (simp add: Torus_obj_def Torus_normal_def euclidean_length_def cos_sin_unit)

section \<open>The tessellation\<close>

lemma Torus_values:
  "surface_values (Torus_obj a b)
     (\<lambda>t p. ((a + b * cos p) * cos t, (a + b * cos p) * sin t, b * sin p))
     (\<lambda>t p. (cos t * cos p, sin t * cos p, sin p))
     (\<lambda>u v. (u / (2 * pi), v / (2 * pi)))"
  by (simp add: surface_values_def Torus_obj_def Torus_position_def Torus_normal_def
      Torus_texCoord_def)

lemma Torus_state_independent: "state_independent (Torus_obj a b)"
  by (simp add: state_independent_def Torus_obj_def Torus_position_def Torus_normal_def
      Torus_texCoord_def)

lemma written_store:
  assumes "written a k w"
  shows "written (a[k := x]) (Suc k) (w @ [x])"
proof -
  from assms have k: "k = length w" and a: "a = take (length a) (w @ replicate (length a) 0)"
    by (simp_all add: written_def)
  have "a[k := x] = take (length a) ((w @ [x]) @ replicate (length a) 0)"
  proof (rule nth_equalityI)
    show "length (a[k := x]) = length (take (length a) ((w @ [x]) @ replicate (length a) 0))"
      by simp
  next
    fix n assume "n < length (a[k := x])"
    then have n: "n < length a" by simp
    have an: "a ! n = (w @ replicate (length a) 0) ! n"
      using a n by (metis nth_take)
    show "a[k := x] ! n = take (length a) ((w @ [x]) @ replicate (length a) 0) ! n"
      using n an k by (auto simp add: nth_list_update nth_append)
  qed
  moreover have "Suc k = length (w @ [x])"
    using k by simp
  ultimately show ?thesis
    unfolding written_def length_list_update by (intro conjI)
qed

lemma written_store3:
  assumes "written a k w"
  shows "written (a[k := x, k + 1 := y, k + 2 := z]) (k + 3) (w @ [x, y, z])"
proof -
  have "written (a[k := x, Suc k := y, Suc (Suc k) := z]) (Suc (Suc (Suc k))) (((w @ [x]) @ [y]) @ [z])"
    by (intro written_store assms)
  then show ?thesis
    by (simp add: numeral_3_eq_3 numeral_2_eq_2)
qed

lemma written_store2:
  assumes "written a k w"
  shows "written (a[k := x, k + 1 := y]) (k + 2) (w @ [x, y])"
proof -
  have "written (a[k := x, Suc k := y]) (Suc (Suc k)) ((w @ [x]) @ [y])"
    by (intro written_store assms)
  then show ?thesis
    by (simp add: numeral_2_eq_2)
qed

lemma written_full:
  assumes "written a k w" "length w = length a"
  shows "a = w"
  using assms by (metis written_def append_eq_conv_conj)

lemma written_init: "written (replicate n 0) 0 []"
  by (simp add: written_def)

lemma take_drop_concat_uniform:
  assumes "\<forall>x \<in> set xs. length (f x) = n" "a < length xs"
  shows "take n (drop (a * n) (concat (map f xs))) = f (xs ! a)"
  using assms
proof (induction xs arbitrary: a)
  case Nil
  then show ?case by simp
next
  case (Cons x xs)
  show ?case
  proof (cases a)
    case 0
    with Cons.prems show ?thesis by simp
  next
    case (Suc b)
    with Cons.prems have "take n (drop (b * n) (concat (map f xs))) = f (xs ! b)"
      by (intro Cons.IH) simp_all
    with Suc Cons.prems show ?thesis by simp
  qed
qed

lemma length_concat_uniform:
  assumes "\<forall>x \<in> set xs. length (f x) = n"
  shows "length (concat (map f xs)) = length xs * n"
  using assms by (induction xs) simp_all

lemma length_grid: "length (grid A B) = nat A * nat B"
  by (simp add: grid_def length_concat_uniform [where n = "nat B"])

lemma grid_nth:
  assumes "1 \<le> i" "i \<le> A" "1 \<le> j" "j \<le> B"
  shows "grid A B ! (nat (i - 1) * nat B + nat (j - 1)) = (i, j)"
proof -
  have len: "\<forall>x \<in> set [1..A]. length (map (Pair x) [1..B]) = nat B"
    by simp
  have ia: "nat (i - 1) < length [1..A]"
    using assms by simp
  have "take (nat B) (drop (nat (i - 1) * nat B) (grid A B)) = map (Pair ([1..A] ! nat (i - 1))) [1..B]"
    unfolding grid_def using len ia by (rule take_drop_concat_uniform)
  also have "[1..A] ! nat (i - 1) = i"
    using assms by (simp add: nth_upto)
  finally have row: "take (nat B) (drop (nat (i - 1) * nat B) (grid A B)) = map (Pair i) [1..B]" .
  have jb: "nat (j - 1) < nat B"
    using assms by simp
  have "nat (i - 1) * nat B \<le> nat A * nat B"
    using assms by (intro mult_le_mono1) simp
  then have "grid A B ! (nat (i - 1) * nat B + nat (j - 1))
      = take (nat B) (drop (nat (i - 1) * nat B) (grid A B)) ! nat (j - 1)"
    using jb by (simp add: length_grid nth_drop)
  also have "\<dots> = (i, j)"
    using assms by (simp add: row nth_upto)
  finally show ?thesis .
qed

lemma setTexCoord_streams:
  assumes "surface_values obj P Q T" "streams (fst sg) wp wn wt wc"
  shows "streams (fst (setTexCoord obj uu vv sg)) wp wn (wt @ emit_texCoord obj T (uu, vv)) wc"
proof (cases sg)
  case (Pair s g)
  show ?thesis
  proof (cases "texCoord obj")
    case None
    with assms Pair show ?thesis
      by (simp add: setTexCoord_def emit_texCoord_def)
  next
    case (Some f)
    obtain t0 t1 g' where f: "f uu vv g = ((t0, t1), g')"
      by (metis surj_pair)
    with Some assms(1) have T: "T uu vv = (t0, t1)"
      by (metis surface_values_def fst_conv)
    from assms(2) Pair have "written (vtexcoord s) (tex_i s) wt"
      by (simp add: streams_def)
    then have "written ((vtexcoord s)[tex_i s := t0, tex_i s + 1 := t1]) (tex_i s + 2) (wt @ [t0, t1])"
      by (rule written_store2)
    with assms(2) Pair Some f T show ?thesis
      by (simp add: setTexCoord_def emit_texCoord_def streams_def vec2_list_def)
  qed
qed

lemma setPosition_streams:
  assumes "surface_values obj P Q T" "streams (fst sg) wp wn wt wc"
  shows "streams (fst (setPosition obj uu vv sg)) (wp @ emit_position obj P (uu, vv)) wn wt wc"
proof (cases sg)
  case (Pair s g)
  show ?thesis
  proof (cases "position obj")
    case None
    with assms Pair show ?thesis
      by (simp add: setPosition_def emit_position_def)
  next
    case (Some f)
    obtain p0 p1 p2 g' where f: "f uu vv g = ((p0, p1, p2), g')"
      by (metis surj_pair)
    with Some assms(1) have P: "P uu vv = (p0, p1, p2)"
      by (metis surface_values_def fst_conv)
    from assms(2) Pair have "written (vposition s) (pos_i s) wp"
      by (simp add: streams_def)
    then have "written ((vposition s)[pos_i s := p0, pos_i s + 1 := p1, pos_i s + 2 := p2])
                 (pos_i s + 3) (wp @ [p0, p1, p2])"
      by (rule written_store3)
    with assms(2) Pair Some f P show ?thesis
      by (simp add: setPosition_def emit_position_def streams_def vec3_list_def)
  qed
qed

lemma setNormal_streams:
  assumes "surface_values obj P Q T" "streams (fst sg) wp wn wt wc"
  shows "streams (fst (setNormal obj uu vv sg)) wp (wn @ emit_normal obj Q (uu, vv)) wt wc"
proof (cases sg)
  case (Pair s g)
  show ?thesis
  proof (cases "normal obj")
    case None
    with assms Pair show ?thesis
      by (simp add: setNormal_def emit_normal_def)
  next
    case (Some f)
    obtain n0 n1 n2 g' where f: "f uu vv g = ((n0, n1, n2), g')"
      by (metis surj_pair)
    with Some assms(1) have Q: "Q uu vv = (n0, n1, n2)"
      by (metis surface_values_def fst_conv)
    from assms(2) Pair have "written (vnormal s) (nor_i s) wn"
      by (simp add: streams_def)
    then have "written ((vnormal s)[nor_i s := n0, nor_i s + 1 := n1, nor_i s + 2 := n2])
                 (nor_i s + 3) (wn @ [n0, n1, n2])"
      by (rule written_store3)
    with assms(2) Pair Some f Q show ?thesis
      by (simp add: setNormal_def emit_normal_def streams_def vec3_list_def)
  qed
qed

lemma setColor_streams:
  assumes "streams (fst sg) wp wn wt wc"
  shows "streams (fst (setColor color sg)) wp wn wt (wc @ emit_color color)"
proof (cases sg)
  case (Pair s g)
  show ?thesis
  proof (cases color)
    case None
    with assms Pair show ?thesis
      by (simp add: setColor_def emit_color_def)
  next
    case (Some c)
    obtain c0 c1 c2 where c: "c = (c0, c1, c2)"
      by (metis surj_pair)
    from assms Pair have "written (vcolor s) (col_i s) wc"
      by (simp add: streams_def)
    then have "written ((vcolor s)[col_i s := c0, col_i s + 1 := c1, col_i s + 2 := c2])
                 (col_i s + 3) (wc @ [c0, c1, c2])"
      by (rule written_store3)
    with assms Pair Some c show ?thesis
      by (simp add: setColor_def emit_color_def streams_def vec3_list_def)
  qed
qed

lemma makeVertex_streams:
  assumes "surface_values obj P Q T" "streams (fst sg) wp wn wt wc"
  shows "streams (fst (makeVertex obj uu vv color sg))
           (wp @ emit_position obj P (uu, vv)) (wn @ emit_normal obj Q (uu, vv))
           (wt @ emit_texCoord obj T (uu, vv)) (wc @ emit_color color)"
  unfolding makeVertex_def
  by (intro setColor_streams setNormal_streams [OF assms(1)] setPosition_streams [OF assms(1)]
      setTexCoord_streams [OF assms(1)] assms(2))

lemma js_rem_2_eq_0: "js_rem a 2 = 0 \<longleftrightarrow> a mod 2 = 0"
  by (simp add: js_rem_def) presburger

lemma patch_streams:
  assumes sv: "surface_values obj P Q T" and st: "streams (fst sg) wp wn wt wc"
  shows "streams (fst (patch obj M N umin umax vmin vmax col1 col2 i j sg))
           (wp @ concat (map (emit_position obj P) (patch_corners M N umin umax vmin vmax i j)))
           (wn @ concat (map (emit_normal obj Q) (patch_corners M N umin umax vmin vmax i j)))
           (wt @ concat (map (emit_texCoord obj T) (patch_corners M N umin umax vmin vmax i j)))
           (wc @ concat (replicate 6 (emit_color (patch_color col1 col2 i j))))"
proof -
  define u0 where "u0 = u0_of M umin umax i"
  define v0 where "v0 = v0_of N vmin vmax j"
  define u where "u = u_of M umin umax i"
  define v where "v = v_of N vmin vmax j"
  define c where "c = (if js_rem (i + j) 2 = 0 then col1 else col2)"
  have pc: "patch_corners M N umin umax vmin vmax i j =
              [(u0, v), (u0, v0), (u, v0), (u, v), (u0, v), (u, v0)]"
    by (simp add: patch_corners_def u0_def v0_def u_def v_def u0_of_def v0_of_def u_of_def
        v_of_def Let_def)
  have cc: "patch_color col1 col2 i j = c"
    by (simp add: patch_color_def c_def js_rem_2_eq_0)
  have pd: "patch obj M N umin umax vmin vmax col1 col2 i j sg =
      makeVertex obj u v0 c (makeVertex obj u0 v c (makeVertex obj u v c
        (makeVertex obj u v0 c (makeVertex obj u0 v0 c (makeVertex obj u0 v c sg)))))"
    by (simp add: patch_def Let_def u0_def v0_def u_def v_def c_def)
  have "streams (fst (patch obj M N umin umax vmin vmax col1 col2 i j sg))
     ((((((wp @ emit_position obj P (u0, v)) @ emit_position obj P (u0, v0)) @
         emit_position obj P (u, v0)) @ emit_position obj P (u, v)) @
         emit_position obj P (u0, v)) @ emit_position obj P (u, v0))
     ((((((wn @ emit_normal obj Q (u0, v)) @ emit_normal obj Q (u0, v0)) @
         emit_normal obj Q (u, v0)) @ emit_normal obj Q (u, v)) @
         emit_normal obj Q (u0, v)) @ emit_normal obj Q (u, v0))
     ((((((wt @ emit_texCoord obj T (u0, v)) @ emit_texCoord obj T (u0, v0)) @
         emit_texCoord obj T (u, v0)) @ emit_texCoord obj T (u, v)) @
         emit_texCoord obj T (u0, v)) @ emit_texCoord obj T (u, v0))
     ((((((wc @ emit_color c) @ emit_color c) @ emit_color c) @ emit_color c) @
         emit_color c) @ emit_color c)"
    unfolding pd by (intro makeVertex_streams [OF sv] st)
  then show ?thesis
    by (simp add: pc cc numeral_eq_Suc)
qed

lemma run_streams:
  assumes sv: "surface_values obj P Q T"
  shows "streams (fst sg) wp wn wt wc \<Longrightarrow>
    streams (fst (fold (\<lambda>(i, j). patch obj M N umin umax vmin vmax col1 col2 i j) cs sg))
      (wp @ concat (map (\<lambda>(i, j). concat (map (emit_position obj P)
                                   (patch_corners M N umin umax vmin vmax i j))) cs))
      (wn @ concat (map (\<lambda>(i, j). concat (map (emit_normal obj Q)
                                   (patch_corners M N umin umax vmin vmax i j))) cs))
      (wt @ concat (map (\<lambda>(i, j). concat (map (emit_texCoord obj T)
                                   (patch_corners M N umin umax vmin vmax i j))) cs))
      (wc @ concat (map (\<lambda>(i, j). concat (replicate 6 (emit_color (patch_color col1 col2 i j)))) cs))"
proof (induction cs arbitrary: sg wp wn wt wc)
  case Nil
  then show ?case by simp
next
  case (Cons ij cs)
  obtain i j where ij: "ij = (i, j)"
    by (metis surj_pair)
  from patch_streams [OF sv Cons.prems, of M N umin umax vmin vmax col1 col2 i j]
  have "streams (fst (fold (\<lambda>(i, j). patch obj M N umin umax vmin vmax col1 col2 i j) cs
                   (patch obj M N umin umax vmin vmax col1 col2 i j sg)))
      ((wp @ concat (map (emit_position obj P) (patch_corners M N umin umax vmin vmax i j))) @
          concat (map (\<lambda>(i, j). concat (map (emit_position obj P)
                                   (patch_corners M N umin umax vmin vmax i j))) cs))
      ((wn @ concat (map (emit_normal obj Q) (patch_corners M N umin umax vmin vmax i j))) @
          concat (map (\<lambda>(i, j). concat (map (emit_normal obj Q)
                                   (patch_corners M N umin umax vmin vmax i j))) cs))
      ((wt @ concat (map (emit_texCoord obj T) (patch_corners M N umin umax vmin vmax i j))) @
          concat (map (\<lambda>(i, j). concat (map (emit_texCoord obj T)
                                   (patch_corners M N umin umax vmin vmax i j))) cs))
      ((wc @ concat (replicate 6 (emit_color (patch_color col1 col2 i j)))) @
          concat (map (\<lambda>(i, j). concat (replicate 6 (emit_color (patch_color col1 col2 i j)))) cs))"
    by (rule Cons.IH)
  then show ?case
    by (simp add: ij)
qed

lemma loop_j_fold:
  "loop_j obj M N umin umax vmin vmax col1 col2 i j sg =
   fold (patch obj M N umin umax vmin vmax col1 col2 i) [j..N] sg"
proof (induction obj M N umin umax vmin vmax col1 col2 i j sg rule: loop_j.induct)
  case (1 obj M N umin umax vmin vmax col1 col2 i j sg)
  show ?case
  proof (cases "j \<le> N")
    case True
    have "[j..N] = j # [j + 1..N]"
      using True by (rule upto_rec1)
    with True 1 show ?thesis
      by (subst loop_j.simps) simp
  next
    case False
    then show ?thesis
      by (subst loop_j.simps) simp
  qed
qed

lemma loop_i_fold:
  "loop_i obj M N umin umax vmin vmax col1 col2 i sg =
   fold (\<lambda>i. fold (patch obj M N umin umax vmin vmax col1 col2 i) [1..N]) [i..M] sg"
proof (induction obj M N umin umax vmin vmax col1 col2 i sg rule: loop_i.induct)
  case (1 obj M N umin umax vmin vmax col1 col2 i sg)
  show ?case
  proof (cases "i \<le> M")
    case True
    have "[i..M] = i # [i + 1..M]"
      using True by (rule upto_rec1)
    with True 1 show ?thesis
      by (subst loop_i.simps) (simp add: loop_j_fold)
  next
    case False
    then show ?thesis
      by (subst loop_i.simps) simp
  qed
qed

lemma fold_rows:
  "fold (\<lambda>(i, j). f i j) (concat (map (\<lambda>i. map (Pair i) ys) xs)) s =
   fold (\<lambda>i. fold (f i) ys) xs s"
  by (induction xs arbitrary: s) (simp_all add: fold_map comp_def)

lemma loops_grid:
  "loop_i obj M N umin umax vmin vmax col1 col2 1 sg =
   fold (\<lambda>(i, j). patch obj M N umin umax vmin vmax col1 col2 i j) (grid M N) sg"
  by (simp add: loop_i_fold grid_def fold_rows)

lemma makeVertex_lengths:
  "array_lengths (fst (makeVertex obj uu vv color sg)) = array_lengths (fst sg)"
  by (cases sg)
    (simp add: makeVertex_def setTexCoord_def setPosition_def setNormal_def setColor_def
      array_lengths_def split: option.splits prod.splits)

lemma patch_lengths:
  "array_lengths (fst (patch obj M N umin umax vmin vmax col1 col2 i j sg)) = array_lengths (fst sg)"
  by (simp add: patch_def Let_def makeVertex_lengths)

lemma run_lengths:
  "array_lengths (fst (fold (\<lambda>(i, j). patch obj M N umin umax vmin vmax col1 col2 i j) cs sg)) =
   array_lengths (fst sg)"
  by (induction cs arbitrary: sg) (simp_all add: patch_lengths split: prod.splits)

lemma loops_lengths:
  "array_lengths (fst (loop_i obj M N umin umax vmin vmax col1 col2 1 (gps_init nV, g))) =
   (nat (nV * 3), nat (nV * 3), nat (nV * 3), nat (nV * 2))"
  by (simp add: loops_grid run_lengths) (simp add: array_lengths_def gps_init_def)

lemma addVertexAttribute_fst:
  "fst (addVertexAttribute sh aT dT nE dA) =
   sh\<lparr>vertexBuffers := vertexBuffers sh @ [VertexAttributeBuffer_new aT dT nE dA]\<rparr>"
  by (simp add: addVertexAttribute_def Let_def)

lemma addVertexAttribute_snd:
  assumes "0 < nE" "numVertices sh * real nE = real (length dA)"
  shows "snd (addVertexAttribute sh aT dT nE dA) = []"
  using assms
  by (simp add: addVertexAttribute_def Let_def VertexAttributeBuffer_new_def field_simps)

lemma loops_array_lengths:
  assumes "loop_i obj M N umin umax vmin vmax col1 col2 1 (gps_init nV, g) = (s, g')"
  shows "length (vposition s) = nat (nV * 3)" "length (vnormal s) = nat (nV * 3)"
    "length (vcolor s) = nat (nV * 3)" "length (vtexcoord s) = nat (nV * 2)"
  using loops_lengths [of obj M N umin umax vmin vmax col1 col2 nV g] assms
  by (simp_all add: array_lengths_def)

lemma GPS_result:
  assumes "0 \<le> M * N"
    and lp: "loop_i obj M N umin umax vmin vmax col1 col2 1 (gps_init (M * N * 6), g) = (s, g')"
  shows "GenerateParametricSurface obj M N umin umax vmin vmax col1 col2 g =
     Inr \<lparr>shape = \<lparr>vertexBuffers = attached obj col1 col2 s, elementBuffer = None,
                    primitiveType = TRIANGLES, numVertices = of_int (M * N * 6)\<rparr>,
          locals = s, console = [], env = g'\<rparr>"
proof -
  have nn: "\<not> M * N * 6 * 3 < 0" "\<not> M * N * 6 * 2 < 0"
    using assms(1) by simp_all
  have lp': "loop_i obj M N umin umax vmin vmax col1 col2 1
       (\<lparr>vposition = replicate (nat (M * N * 6 * 3)) 0, vnormal = replicate (nat (M * N * 6 * 3)) 0,
         vcolor = replicate (nat (M * N * 6 * 3)) 0, vtexcoord = replicate (nat (M * N * 6 * 2)) 0,
         pos_i = 0, col_i = 0, nor_i = 0, tex_i = 0\<rparr>, g) = (s, g')"
    using lp by (simp only: gps_init_def)
  note len = loops_array_lengths [OF lp]
  have w3: "snd (addVertexAttribute sh' aT FLOAT 3 dA) = []"
    if "numVertices sh' = of_int (M * N * 6)" "length dA = nat (M * N * 6 * 3)" for sh' aT dA
  proof (rule addVertexAttribute_snd)
    show "0 < (3::nat)" by simp
    show "numVertices sh' * real 3 = real (length dA)"
      using that assms(1) by simp
  qed
  have w2: "snd (addVertexAttribute sh' aT FLOAT 2 dA) = []"
    if "numVertices sh' = of_int (M * N * 6)" "length dA = nat (M * N * 6 * 2)" for sh' aT dA
  proof (rule addVertexAttribute_snd)
    show "0 < (2::nat)" by simp
    show "numVertices sh' * real 2 = real (length dA)"
      using that assms(1) by simp
  qed
  define sh0 where "sh0 = VertexBasedShape_new TRIANGLES (of_int (M * N * 6))"
  define a1 where "a1 = (if position obj \<noteq> None
       then addVertexAttribute sh0 ''vertexPosition'' FLOAT 3 (vposition s) else (sh0, []))"
  define a2 where "a2 = (if normal obj \<noteq> None
       then addVertexAttribute (fst a1) ''vertexNormal'' FLOAT 3 (vnormal s) else (fst a1, []))"
  define a3 where "a3 = (if texCoord obj \<noteq> None
       then addVertexAttribute (fst a2) ''vertexTexCoord'' FLOAT 2 (vtexcoord s) else (fst a2, []))"
  define a4 where "a4 = (if col1 \<noteq> None \<and> col2 \<noteq> None
       then addVertexAttribute (fst a3) ''vertexColor'' FLOAT 3 (vcolor s) else (fst a3, []))"
  have unfolded: "GenerateParametricSurface obj M N umin umax vmin vmax col1 col2 g =
     Inr \<lparr>shape = fst a4, locals = s, console = snd a1 @ snd a2 @ snd a3 @ snd a4, env = g'\<rparr>"
    unfolding a4_def a3_def a2_def a1_def sh0_def GenerateParametricSurface_def
      Float32Array_def Let_def
    by (simp only: nn if_False sum.case lp' prod.case case_prod_beta fst_conv snd_conv)
  have n1: "numVertices (fst a1) = of_int (M * N * 6)"
    by (simp add: a1_def sh0_def addVertexAttribute_fst VertexBasedShape_new_def)
  have n2: "numVertices (fst a2) = of_int (M * N * 6)"
    by (simp add: a2_def addVertexAttribute_fst n1)
  have n3: "numVertices (fst a3) = of_int (M * N * 6)"
    by (simp add: a3_def addVertexAttribute_fst n2)
  have n0: "numVertices sh0 = of_int (M * N * 6)"
    by (simp add: sh0_def VertexBasedShape_new_def)
  have l1: "snd a1 = []"
    unfolding a1_def using w3 [OF n0 len(1)] by simp
  have l2: "snd a2 = []"
    unfolding a2_def using w3 [OF n1 len(2)] by simp
  have l3: "snd a3 = []"
    unfolding a3_def using w2 [OF n2 len(4)] by simp
  have l4: "snd a4 = []"
    unfolding a4_def using w3 [OF n3 len(3)] by simp
  have sh: "fst a4 = \<lparr>vertexBuffers = attached obj col1 col2 s, elementBuffer = None,
                    primitiveType = TRIANGLES, numVertices = of_int (M * N * 6)\<rparr>"
    by (simp add: a4_def a3_def a2_def a1_def sh0_def addVertexAttribute_fst
        VertexBasedShape_new_def attached_def)
  show ?thesis
    by (simp only: unfolded l1 l2 l3 l4 sh append_Nil)
qed

lemma grid_empty: "A \<le> 0 \<or> B \<le> 0 \<Longrightarrow> grid A B = []"
  by (auto simp add: grid_def)

lemma attached_buffers:
  assumes "b \<in> set (attached obj col1 col2 s)"
  shows "(attrType b = ''vertexPosition'' \<and> numElements b = 3 \<and> dataArray b = vposition s) \<or>
         (attrType b = ''vertexNormal'' \<and> numElements b = 3 \<and> dataArray b = vnormal s) \<or>
         (attrType b = ''vertexTexCoord'' \<and> numElements b = 2 \<and> dataArray b = vtexcoord s) \<or>
         (attrType b = ''vertexColor'' \<and> numElements b = 3 \<and> dataArray b = vcolor s)"
  using assms
  by (auto simp add: attached_def VertexAttributeBuffer_new_def split: if_splits)

lemma makeVertex_indices:
  "pos_i (fst (makeVertex obj uu vv c sg)) = pos_i (fst sg) + (if position obj = None then 0 else 3)"
  "nor_i (fst (makeVertex obj uu vv c sg)) = nor_i (fst sg) + (if normal obj = None then 0 else 3)"
  "tex_i (fst (makeVertex obj uu vv c sg)) = tex_i (fst sg) + (if texCoord obj = None then 0 else 2)"
  "col_i (fst (makeVertex obj uu vv c sg)) = col_i (fst sg) + (if c = None then 0 else 3)"
  by (cases sg; simp add: makeVertex_def setTexCoord_def setPosition_def setNormal_def
      setColor_def split: option.splits prod.splits)+

lemma patch_indices:
  "pos_i (fst (patch obj M N umin umax vmin vmax col1 col2 i j sg)) =
     pos_i (fst sg) + (if position obj = None then 0 else 18)"
  "nor_i (fst (patch obj M N umin umax vmin vmax col1 col2 i j sg)) =
     nor_i (fst sg) + (if normal obj = None then 0 else 18)"
  "tex_i (fst (patch obj M N umin umax vmin vmax col1 col2 i j sg)) =
     tex_i (fst sg) + (if texCoord obj = None then 0 else 12)"
  "col_i (fst (patch obj M N umin umax vmin vmax col1 col2 i j sg)) =
     col_i (fst sg) + (if patch_color col1 col2 i j = None then 0 else 18)"
  by (simp_all add: patch_def Let_def makeVertex_indices patch_color_def js_rem_2_eq_0)

lemma run_indices:
  "pos_i (fst (fold (\<lambda>(i, j). patch obj M N umin umax vmin vmax col1 col2 i j) cs sg)) =
     pos_i (fst sg) + length cs * (if position obj = None then 0 else 18)"
  "nor_i (fst (fold (\<lambda>(i, j). patch obj M N umin umax vmin vmax col1 col2 i j) cs sg)) =
     nor_i (fst sg) + length cs * (if normal obj = None then 0 else 18)"
  "tex_i (fst (fold (\<lambda>(i, j). patch obj M N umin umax vmin vmax col1 col2 i j) cs sg)) =
     tex_i (fst sg) + length cs * (if texCoord obj = None then 0 else 12)"
  "col_i (fst (fold (\<lambda>(i, j). patch obj M N umin umax vmin vmax col1 col2 i j) cs sg)) =
     col_i (fst sg) + 18 * length (filter (\<lambda>(i, j). patch_color col1 col2 i j \<noteq> None) cs)"
  by (induction cs arbitrary: sg; simp add: patch_indices split: prod.splits)+

lemma loops_indices:
  assumes lp: "loop_i obj M N umin umax vmin vmax col1 col2 1 (gps_init nV, g) = (s, g')"
  shows "pos_i s = (if position obj = None then 0 else 18 * (nat M * nat N))"
    and "nor_i s = (if normal obj = None then 0 else 18 * (nat M * nat N))"
    and "tex_i s = (if texCoord obj = None then 0 else 12 * (nat M * nat N))"
    and "col_i s = 18 * length (filter (\<lambda>(i, j). patch_color col1 col2 i j \<noteq> None) (grid M N))"
proof -
  have s: "s = fst (fold (\<lambda>(i, j). patch obj M N umin umax vmin vmax col1 col2 i j) (grid M N)
                 (gps_init nV, g))"
    using lp by (simp add: loops_grid)
  have z: "pos_i (gps_init nV) = 0" "nor_i (gps_init nV) = 0" "tex_i (gps_init nV) = 0"
    "col_i (gps_init nV) = 0"
    by (simp_all add: gps_init_def)
  show "pos_i s = (if position obj = None then 0 else 18 * (nat M * nat N))"
    unfolding s by (simp add: run_indices z length_grid)
  show "nor_i s = (if normal obj = None then 0 else 18 * (nat M * nat N))"
    unfolding s by (simp add: run_indices z length_grid)
  show "tex_i s = (if texCoord obj = None then 0 else 12 * (nat M * nat N))"
    unfolding s by (simp add: run_indices z length_grid)
  show "col_i s = 18 * length (filter (\<lambda>(i, j). patch_color col1 col2 i j \<noteq> None) (grid M N))"
    unfolding s by (simp add: run_indices z)
qed

lemma filter_patch_color:
  "col1 \<noteq> None \<Longrightarrow> col2 \<noteq> None \<Longrightarrow>
     filter (\<lambda>(i, j). patch_color col1 col2 i j \<noteq> None) cs = cs"
  "col1 = None \<Longrightarrow> col2 = None \<Longrightarrow>
     filter (\<lambda>(i, j). patch_color col1 col2 i j \<noteq> None) cs = []"
  by (induction cs; auto simp add: patch_color_def)+

text \<open>
  C1. For all integers \<open>M, N \<ge> 1\<close> and every surface, colours and parameter ranges, the
  call returns a shape that declares \<open>M * N * 6\<close> vertices. The buffers on the shape are
  exactly those of the supplied attributes, in the order position, normal, texture
  coordinate, colour (the colour with both colours given), each over the array of the
  call; each has 3 components (2 for the texture coordinates), holds exactly
  \<open>M * N * 6\<close> times that many numbers and so counts \<open>M * N * 6\<close> vertices. The count of
  numbers the call fills into a stream, its write index after the loops, is 0 for an
  attribute that is not supplied and \<open>M * N * 6\<close> times the component count for one that
  is; with a single colour given only the patches of that colour's parity are filled
  and no colour buffer is attached. The four local arrays are allocated at full length
  whether or not their attribute is supplied, and nothing is logged.
\<close>

theorem GPS_vertex_count:
  assumes "1 \<le> M" "1 \<le> N"
  shows "\<exists>r. GenerateParametricSurface obj M N umin umax vmin vmax col1 col2 g = Inr r \<and>
           numVertices (shape r) = of_int (M * N * 6) \<and>
           vertexBuffers (shape r) =
             (if position obj \<noteq> None
              then [VertexAttributeBuffer_new ''vertexPosition'' FLOAT 3 (vposition (locals r))]
              else []) @
             (if normal obj \<noteq> None
              then [VertexAttributeBuffer_new ''vertexNormal'' FLOAT 3 (vnormal (locals r))]
              else []) @
             (if texCoord obj \<noteq> None
              then [VertexAttributeBuffer_new ''vertexTexCoord'' FLOAT 2 (vtexcoord (locals r))]
              else []) @
             (if col1 \<noteq> None \<and> col2 \<noteq> None
              then [VertexAttributeBuffer_new ''vertexColor'' FLOAT 3 (vcolor (locals r))]
              else []) \<and>
           (\<forall>b \<in> set (vertexBuffers (shape r)).
              attrType b \<in> {''vertexPosition'', ''vertexNormal'', ''vertexTexCoord'', ''vertexColor''} \<and>
              numElements b = (if attrType b = ''vertexTexCoord'' then 2 else 3) \<and>
              length (dataArray b) = nat (M * N * 6) * numElements b \<and>
              numVertices_buf b = Some (of_int (M * N * 6))) \<and>
           length (vposition (locals r)) = nat (M * N * 6) * 3 \<and>
           length (vnormal (locals r)) = nat (M * N * 6) * 3 \<and>
           length (vtexcoord (locals r)) = nat (M * N * 6) * 2 \<and>
           length (vcolor (locals r)) = nat (M * N * 6) * 3 \<and>
           pos_i (locals r) = (if position obj = None then 0 else nat (M * N * 6) * 3) \<and>
           nor_i (locals r) = (if normal obj = None then 0 else nat (M * N * 6) * 3) \<and>
           tex_i (locals r) = (if texCoord obj = None then 0 else nat (M * N * 6) * 2) \<and>
           col_i (locals r) =
             (if col1 \<noteq> None \<and> col2 \<noteq> None then nat (M * N * 6) * 3
              else if col1 = None \<and> col2 = None then 0
              else 18 * length (filter (\<lambda>(i, j). (if (i + j) mod 2 = 0 then col1 else col2) \<noteq> None)
                                  (grid M N))) \<and>
           console r = []"
proof -
  have mn: "0 \<le> M * N"
    using assms by simp
  obtain s g' where lp:
    "loop_i obj M N umin umax vmin vmax col1 col2 1 (gps_init (M * N * 6), g) = (s, g')"
    by (metis surj_pair)
  note res = GPS_result [OF mn lp]
  note len = loops_array_lengths [OF lp]
  note idx = loops_indices [OF lp]
  define n where "n = nat (M * N * 6)"
  have rn: "real_of_int (M * N * 6) = real n"
    using mn by (simp add: n_def)
  have len': "length (vposition s) = n * 3" "length (vnormal s) = n * 3"
    "length (vcolor s) = n * 3" "length (vtexcoord s) = n * 2"
    using len mn by (simp_all add: n_def nat_mult_distrib)
  have cells: "18 * (nat M * nat N) = n * 3" "12 * (nat M * nat N) = n * 2"
    using assms by (simp_all add: n_def nat_mult_distrib)
  have pos: "pos_i s = (if position obj = None then 0 else n * 3)"
    and nor: "nor_i s = (if normal obj = None then 0 else n * 3)"
    and tex: "tex_i s = (if texCoord obj = None then 0 else n * 2)"
    using idx(1-3) by (simp_all only: cells)
  have col: "col_i s =
      (if col1 \<noteq> None \<and> col2 \<noteq> None then n * 3
       else if col1 = None \<and> col2 = None then 0
       else 18 * length (filter (\<lambda>(i, j). (if (i + j) mod 2 = 0 then col1 else col2) \<noteq> None)
                           (grid M N)))"
  proof -
    have "col_i s = 18 * length (grid M N)" if "col1 \<noteq> None" "col2 \<noteq> None"
      using idx(4) filter_patch_color(1) [OF that, of "grid M N"] by simp
    moreover have "col_i s = 0" if "col1 = None" "col2 = None"
      using idx(4) filter_patch_color(2) [OF that, of "grid M N"] by simp
    moreover have "col_i s = 18 * length (filter (\<lambda>(i, j). (if (i + j) mod 2 = 0 then col1 else col2) \<noteq> None)
                           (grid M N))"
      using idx(4) by (simp only: patch_color_def)
    ultimately show ?thesis
      using cells(1) by (auto simp add: length_grid)
  qed
  have bufs: "attrType b \<in> {''vertexPosition'', ''vertexNormal'', ''vertexTexCoord'', ''vertexColor''} \<and>
      numElements b = (if attrType b = ''vertexTexCoord'' then 2 else 3) \<and>
      length (dataArray b) = n * numElements b \<and>
      numVertices_buf b = Some (real n)"
    if "b \<in> set (attached obj col1 col2 s)" for b
  proof -
    have nv: "numVertices_buf b = (if numElements b = 0 then None
        else Some (real (length (dataArray b)) / real (numElements b)))"
      using that by (auto simp add: attached_def VertexAttributeBuffer_new_def split: if_splits)
    from attached_buffers [OF that] show ?thesis
      by (elim disjE conjE) (simp_all add: nv len')
  qed
  have att: "attached obj col1 col2 s =
             (if position obj \<noteq> None
              then [VertexAttributeBuffer_new ''vertexPosition'' FLOAT 3 (vposition s)] else []) @
             (if normal obj \<noteq> None
              then [VertexAttributeBuffer_new ''vertexNormal'' FLOAT 3 (vnormal s)] else []) @
             (if texCoord obj \<noteq> None
              then [VertexAttributeBuffer_new ''vertexTexCoord'' FLOAT 2 (vtexcoord s)] else []) @
             (if col1 \<noteq> None \<and> col2 \<noteq> None
              then [VertexAttributeBuffer_new ''vertexColor'' FLOAT 3 (vcolor s)] else [])"
    by (rule attached_def)
  have sel: "shape \<lparr>shape = sh, locals = s, console = [], env = g'\<rparr> = sh"
    "locals \<lparr>shape = sh, locals = s, console = [], env = g'\<rparr> = s"
    "console \<lparr>shape = sh, locals = s, console = [], env = g'\<rparr> = []" for sh
    by simp_all
  show ?thesis
    unfolding res rn n_def [symmetric]
  proof (intro exI conjI)
    show "Inr \<lparr>shape = \<lparr>vertexBuffers = attached obj col1 col2 s, elementBuffer = None,
                    primitiveType = TRIANGLES, numVertices = real n\<rparr>,
          locals = s, console = [], env = g'\<rparr> =
          Inr \<lparr>shape = \<lparr>vertexBuffers = attached obj col1 col2 s, elementBuffer = None,
                    primitiveType = TRIANGLES, numVertices = real n\<rparr>,
          locals = s, console = [], env = g'\<rparr>"
      by (rule refl)
  qed (simp_all only: sel VertexBasedShape.simps att [symmetric] len' pos nor tex col,
      use bufs in blast)
qed

theorem GPS_vertex_count_witness:
  "(1::int) \<le> 2 \<and> (1::int) \<le> 3 \<and>
   (\<exists>r. GenerateParametricSurface (Torus_obj 2 0.5) 2 3 0 (2 * pi) 0 (2 * pi)
           (Some (1, 0, 0)) (Some (0, 0, 1)) \<lparr>h = 0\<rparr> = Inr r \<and>
         numVertices (shape r) = 36 \<and>
         map attrType (vertexBuffers (shape r)) =
           [''vertexPosition'', ''vertexNormal'', ''vertexTexCoord'', ''vertexColor''] \<and>
         map numElements (vertexBuffers (shape r)) = [3, 3, 2, 3] \<and>
         map (\<lambda>b. length (dataArray b)) (vertexBuffers (shape r)) = [108, 108, 72, 108] \<and>
         map dataArray (vertexBuffers (shape r)) =
           [vposition (locals r), vnormal (locals r), vtexcoord (locals r), vcolor (locals r)] \<and>
         pos_i (locals r) = 108 \<and> nor_i (locals r) = 108 \<and>
         tex_i (locals r) = 72 \<and> col_i (locals r) = 108 \<and>
         console r = [])"
proof -
  have b1: "(1::int) \<le> 2" and b2: "(1::int) \<le> 3"
    by simp_all
  from GPS_vertex_count [of 2 3 "Torus_obj 2 0.5" 0 "2 * pi" 0 "2 * pi"
      "Some (1, 0, 0)" "Some (0, 0, 1)" "\<lparr>h = 0\<rparr>", OF b1 b2]
  obtain r where r: "GenerateParametricSurface (Torus_obj 2 0.5) 2 3 0 (2 * pi) 0 (2 * pi)
           (Some (1, 0, 0)) (Some (0, 0, 1)) \<lparr>h = 0\<rparr> = Inr r"
    and nv: "numVertices (shape r) = of_int (2 * 3 * 6)"
    and vb: "vertexBuffers (shape r) =
       [VertexAttributeBuffer_new ''vertexPosition'' FLOAT 3 (vposition (locals r)),
        VertexAttributeBuffer_new ''vertexNormal'' FLOAT 3 (vnormal (locals r)),
        VertexAttributeBuffer_new ''vertexTexCoord'' FLOAT 2 (vtexcoord (locals r)),
        VertexAttributeBuffer_new ''vertexColor'' FLOAT 3 (vcolor (locals r))]"
    and len: "length (vposition (locals r)) = 108" "length (vnormal (locals r)) = 108"
      "length (vtexcoord (locals r)) = 72" "length (vcolor (locals r)) = 108"
    and idx: "pos_i (locals r) = 108" "nor_i (locals r) = 108" "tex_i (locals r) = 72"
      "col_i (locals r) = 108"
    and lg: "console r = []"
    by (auto simp add: Torus_obj_def)
  show ?thesis
    using r nv vb len idx lg by (simp add: VertexAttributeBuffer_new_def)
qed

text \<open>
  C5. With \<open>M = 0\<close> or \<open>N = 0\<close> the call returns normally, for every surface: the shape
  declares 0 vertices, the four arrays and the data of every buffer on the shape have
  length 0, nothing is logged, and no method of the surface is called (the state of the
  program is as before).
\<close>

theorem GPS_empty_grid:
  assumes "M = 0 \<or> N = 0"
  shows "\<exists>r. GenerateParametricSurface obj M N umin umax vmin vmax col1 col2 g = Inr r \<and>
           numVertices (shape r) = 0 \<and>
           vposition (locals r) = [] \<and> vnormal (locals r) = [] \<and>
           vtexcoord (locals r) = [] \<and> vcolor (locals r) = [] \<and>
           (\<forall>b \<in> set (vertexBuffers (shape r)). dataArray b = []) \<and>
           console r = [] \<and> env r = g"
proof -
  have z: "M * N * 6 = 0"
    using assms by auto
  have mn0: "0 \<le> M * N"
    using assms by auto
  have "grid M N = []"
    using assms by (auto intro: grid_empty)
  then have lp: "loop_i obj M N umin umax vmin vmax col1 col2 1 (gps_init (M * N * 6), g) =
      (gps_init (M * N * 6), g)"
    by (simp add: loops_grid)
  note res = GPS_result [OF mn0 lp, unfolded z]
  have e: "vposition (gps_init 0) = []" "vnormal (gps_init 0) = []"
    "vtexcoord (gps_init 0) = []" "vcolor (gps_init 0) = []"
    by (simp_all add: gps_init_def)
  have "dataArray b = []" if "b \<in> set (attached obj col1 col2 (gps_init 0))" for b
    using attached_buffers [OF that] e by auto
  then show ?thesis
    unfolding res using e by simp
qed

theorem GPS_empty_grid_witness:
  "((0::int) = 0 \<or> (3::int) = 0) \<and>
   (\<exists>r. GenerateParametricSurface (Torus_obj 2 0.5) 0 3 0 (2 * pi) 0 (2 * pi)
           (Some (1, 0, 0)) (Some (0, 0, 1)) \<lparr>h = 0\<rparr> = Inr r \<and>
           numVertices (shape r) = 0 \<and>
           vposition (locals r) = [] \<and> vnormal (locals r) = [] \<and>
           vtexcoord (locals r) = [] \<and> vcolor (locals r) = [] \<and>
           (\<forall>b \<in> set (vertexBuffers (shape r)). dataArray b = []) \<and>
           console r = [] \<and> env r = \<lparr>h = 0\<rparr>)"
proof -
  have b: "(0::int) = 0 \<or> (3::int) = 0"
    by simp
  from GPS_empty_grid [OF b, of "Torus_obj 2 0.5" 0 "2 * pi" 0 "2 * pi" "Some (1, 0, 0)" "Some (0, 0, 1)" "\<lparr>h = 0\<rparr>"]
  show ?thesis
    using b by (intro conjI)
qed

lemma sub_chunk:
  assumes "k + m \<le> n"
  shows "take m (drop (c * n + k) xs) = take m (drop k (take n (drop (c * n) xs)))"
proof -
  have "take m (drop k (take n (drop (c * n) xs))) = take m (take (n - k) (drop k (drop (c * n) xs)))"
    by (simp only: drop_take)
  also have "\<dots> = take m (drop (c * n + k) xs)"
    using assms by (simp add: min_def add.commute)
  finally show ?thesis by simp
qed

lemma take_drop_concat_replicate:
  assumes "length x = n" "k < m"
  shows "take n (drop (k * n) (concat (replicate m x))) = x"
proof -
  have "take n (drop (k * n) (concat (map (\<lambda>_. x) [0..<m]))) = (\<lambda>_. x) ([0..<m] ! k)"
    using assms by (intro take_drop_concat_uniform) simp_all
  then show ?thesis
    by (simp add: map_replicate_const)
qed

lemma grid_index:
  assumes "1 \<le> i" "i \<le> A" "1 \<le> j" "j \<le> B"
  shows "nat ((i - 1) * B + (j - 1)) = nat (i - 1) * nat B + nat (j - 1)"
    and "nat ((i - 1) * B + (j - 1)) < length (grid A B)"
    and "grid A B ! nat ((i - 1) * B + (j - 1)) = (i, j)"
proof -
  have "0 \<le> (i - 1) * B"
    using assms by simp
  then show eq: "nat ((i - 1) * B + (j - 1)) = nat (i - 1) * nat B + nat (j - 1)"
    using assms by (simp add: nat_add_distrib nat_mult_distrib)
  have "nat (i - 1) * nat B + nat (j - 1) < nat (i - 1) * nat B + nat B"
    using assms by simp
  also have "\<dots> = Suc (nat (i - 1)) * nat B"
    by simp
  also have "\<dots> \<le> nat A * nat B"
    using assms by (intro mult_le_mono1) simp
  finally show "nat ((i - 1) * B + (j - 1)) < length (grid A B)"
    by (simp add: eq length_grid)
  show "grid A B ! nat ((i - 1) * B + (j - 1)) = (i, j)"
    unfolding eq using assms by (rule grid_nth)
qed

lemma grid_chunk:
  assumes "1 \<le> i" "i \<le> A" "1 \<le> j" "j \<le> B"
    and "\<forall>c \<in> set (grid A B). length (F c) = n" and "k + m \<le> n"
  shows "take m (drop (n * nat ((i - 1) * B + (j - 1)) + k) (concat (map F (grid A B)))) =
         take m (drop k (F (i, j)))"
proof -
  note gi = grid_index [OF assms(1-4)]
  have "take n (drop (nat ((i - 1) * B + (j - 1)) * n) (concat (map F (grid A B)))) =
        F (grid A B ! nat ((i - 1) * B + (j - 1)))"
    using assms(5) gi(2) by (rule take_drop_concat_uniform)
  then have "take n (drop (nat ((i - 1) * B + (j - 1)) * n) (concat (map F (grid A B)))) = F (i, j)"
    by (simp only: gi(3))
  then show ?thesis
    using sub_chunk [OF assms(6), of "nat ((i - 1) * B + (j - 1))" "concat (map F (grid A B))"]
    by (simp only: mult.commute [of n])
qed

lemma gps_init_streams: "streams (gps_init nV) [] [] [] []"
  by (simp add: streams_def gps_init_def written_def)

lemma patch_corners_length: "length (patch_corners M N umin umax vmin vmax i j) = 6"
  by (simp add: patch_corners_def Let_def)

lemma emit_lengths:
  "position obj \<noteq> None \<Longrightarrow> length (emit_position obj P c) = 3"
  "normal obj \<noteq> None \<Longrightarrow> length (emit_normal obj Q c) = 3"
  "texCoord obj \<noteq> None \<Longrightarrow> length (emit_texCoord obj T c) = 2"
  "length (emit_color (Some col)) = 3"
  by (auto simp add: emit_position_def emit_normal_def emit_texCoord_def emit_color_def
      vec3_list_def vec2_list_def split: prod.splits)

lemma GPS_final_streams:
  assumes sv: "surface_values obj P Q T"
    and lp: "loop_i obj M N umin umax vmin vmax col1 col2 1 (gps_init (M * N * 6), g) = (s, g')"
  shows "streams s
      (concat (map (\<lambda>(i, j). concat (map (emit_position obj P)
                                   (patch_corners M N umin umax vmin vmax i j))) (grid M N)))
      (concat (map (\<lambda>(i, j). concat (map (emit_normal obj Q)
                                   (patch_corners M N umin umax vmin vmax i j))) (grid M N)))
      (concat (map (\<lambda>(i, j). concat (map (emit_texCoord obj T)
                                   (patch_corners M N umin umax vmin vmax i j))) (grid M N)))
      (concat (map (\<lambda>(i, j). concat (replicate 6 (emit_color (patch_color col1 col2 i j)))) (grid M N)))"
proof -
  have "streams (fst (gps_init (M * N * 6), g)) [] [] [] []"
    by (simp add: gps_init_streams)
  from run_streams [OF sv this, of M N umin umax vmin vmax col1 col2 "grid M N"] lp
  show ?thesis
    by (simp add: loops_grid)
qed

lemma grid_vertex:
  assumes "1 \<le> i" "i \<le> A" "1 \<le> j" "j \<le> B" "k < 6"
    and V: "\<And>i j. length (V i j) = 6 \<and> (\<forall>x \<in> set (V i j). length x = d)"
  shows "take d (drop (6 * d * nat ((i - 1) * B + (j - 1)) + d * k)
           (concat (map (\<lambda>(i, j). concat (V i j)) (grid A B)))) = V i j ! k"
proof -
  have lenV: "length (concat (V i j)) = 6 * d" for i j
    using length_concat_uniform [of "V i j" "\<lambda>x. x" d] V [of i j] by simp
  have "take d (drop (6 * d * nat ((i - 1) * B + (j - 1)) + d * k)
           (concat (map (\<lambda>(i, j). concat (V i j)) (grid A B)))) =
        take d (drop (d * k) ((\<lambda>(i, j). concat (V i j)) (i, j)))"
    using assms(1-4)
  proof (rule grid_chunk)
    show "\<forall>c \<in> set (grid A B). length ((\<lambda>(i, j). concat (V i j)) c) = 6 * d"
      by (simp add: lenV split: prod.splits)
    show "d * k + d \<le> 6 * d"
      using assms(5) by (simp add: algebra_simps)
  qed
  also have "\<dots> = take d (drop (k * d) (concat (map (\<lambda>x. x) (V i j))))"
    by (simp add: mult.commute)
  also have "\<dots> = V i j ! k"
    using V [of i j] assms(5) by (intro take_drop_concat_uniform) simp_all
  finally show ?thesis .
qed

lemma setColor_written:
  assumes "written (vcolor (fst sg)) (col_i (fst sg)) wc"
  shows "written (vcolor (fst (setColor color sg))) (col_i (fst (setColor color sg)))
           (wc @ emit_color color)"
proof (cases sg)
  case (Pair s g)
  show ?thesis
  proof (cases color)
    case None
    with assms Pair show ?thesis
      by (simp add: setColor_def emit_color_def)
  next
    case (Some c)
    obtain c0 c1 c2 where c: "c = (c0, c1, c2)"
      by (metis surj_pair)
    from assms Pair have "written (vcolor s) (col_i s) wc"
      by simp
    then have "written ((vcolor s)[col_i s := c0, col_i s + 1 := c1, col_i s + 2 := c2])
                 (col_i s + 3) (wc @ [c0, c1, c2])"
      by (rule written_store3)
    with Pair Some c show ?thesis
      by (simp add: setColor_def emit_color_def vec3_list_def)
  qed
qed

lemma setters_keep_color:
  "vcolor (fst (setTexCoord obj uu vv sg)) = vcolor (fst sg)"
  "col_i (fst (setTexCoord obj uu vv sg)) = col_i (fst sg)"
  "vcolor (fst (setPosition obj uu vv sg)) = vcolor (fst sg)"
  "col_i (fst (setPosition obj uu vv sg)) = col_i (fst sg)"
  "vcolor (fst (setNormal obj uu vv sg)) = vcolor (fst sg)"
  "col_i (fst (setNormal obj uu vv sg)) = col_i (fst sg)"
  by (cases sg; simp add: setTexCoord_def setPosition_def setNormal_def
      split: option.splits prod.splits)+

lemma makeVertex_color:
  assumes "written (vcolor (fst sg)) (col_i (fst sg)) wc"
  shows "written (vcolor (fst (makeVertex obj uu vv color sg)))
           (col_i (fst (makeVertex obj uu vv color sg))) (wc @ emit_color color)"
  unfolding makeVertex_def
  by (rule setColor_written) (simp add: setters_keep_color assms)

lemma patch_color_written:
  assumes "written (vcolor (fst sg)) (col_i (fst sg)) wc"
  shows "written (vcolor (fst (patch obj M N umin umax vmin vmax col1 col2 i j sg)))
           (col_i (fst (patch obj M N umin umax vmin vmax col1 col2 i j sg)))
           (wc @ concat (replicate 6 (emit_color (patch_color col1 col2 i j))))"
proof -
  define c where "c = (if js_rem (i + j) 2 = 0 then col1 else col2)"
  have cc: "patch_color col1 col2 i j = c"
    by (simp add: patch_color_def c_def js_rem_2_eq_0)
  define sg6 where "sg6 = patch obj M N umin umax vmin vmax col1 col2 i j sg"
  have "written (vcolor (fst sg6)) (col_i (fst sg6))
     ((((((wc @ emit_color c) @ emit_color c) @ emit_color c) @ emit_color c) @
         emit_color c) @ emit_color c)"
    unfolding sg6_def patch_def Let_def c_def [symmetric]
    by (intro makeVertex_color assms)
  then show ?thesis
    by (simp add: cc sg6_def numeral_eq_Suc)
qed

lemma run_color_written:
  "written (vcolor (fst sg)) (col_i (fst sg)) wc \<Longrightarrow>
   written
     (vcolor (fst (fold (\<lambda>(i, j). patch obj M N umin umax vmin vmax col1 col2 i j) cs sg)))
     (col_i (fst (fold (\<lambda>(i, j). patch obj M N umin umax vmin vmax col1 col2 i j) cs sg)))
     (wc @ concat (map (\<lambda>(i, j). concat (replicate 6 (emit_color (patch_color col1 col2 i j)))) cs))"
proof (induction cs arbitrary: sg wc)
  case Nil
  then show ?case by simp
next
  case (Cons ij cs)
  obtain i j where ij: "ij = (i, j)"
    by (metis surj_pair)
  from patch_color_written [OF Cons.prems, of obj M N umin umax vmin vmax col1 col2 i j]
  have "written
     (vcolor (fst (fold (\<lambda>(i, j). patch obj M N umin umax vmin vmax col1 col2 i j) cs
                (patch obj M N umin umax vmin vmax col1 col2 i j sg))))
     (col_i (fst (fold (\<lambda>(i, j). patch obj M N umin umax vmin vmax col1 col2 i j) cs
                (patch obj M N umin umax vmin vmax col1 col2 i j sg))))
     ((wc @ concat (replicate 6 (emit_color (patch_color col1 col2 i j)))) @
        concat (map (\<lambda>(i, j). concat (replicate 6 (emit_color (patch_color col1 col2 i j)))) cs))"
    by (rule Cons.IH)
  then show ?case
    by (simp add: ij)
qed

lemma length_concat_replicate: "length (concat (replicate m x)) = m * length x"
  by (induction m) simp_all

lemma GPS_full_color:
  assumes lp: "loop_i obj M N umin umax vmin vmax (Some c1) (Some c2) 1 (gps_init (M * N * 6), g) = (s, g')"
    and "0 \<le> M" "0 \<le> N"
  shows "vcolor s = concat (map (\<lambda>(i, j).
           concat (replicate 6 (emit_color (patch_color (Some c1) (Some c2) i j)))) (grid M N))"
proof -
  have "written (vcolor (fst (gps_init (M * N * 6), g))) (col_i (fst (gps_init (M * N * 6), g))) []"
    by (simp add: gps_init_def written_def)
  from run_color_written [OF this, of obj M N umin umax vmin vmax "Some c1" "Some c2" "grid M N"] lp
  have w: "written (vcolor s) (col_i s) (concat (map (\<lambda>(i, j).
           concat (replicate 6 (emit_color (patch_color (Some c1) (Some c2) i j)))) (grid M N)))"
    by (simp add: loops_grid)
  have "length (concat (map (\<lambda>(i, j).
           concat (replicate 6 (emit_color (patch_color (Some c1) (Some c2) i j)))) (grid M N)))
        = length (grid M N) * 18"
    by (rule length_concat_uniform)
      (simp add: patch_color_def emit_lengths length_concat_replicate split: prod.splits)
  also have "\<dots> = nat (M * N * 6 * 3)"
    using assms(2,3) by (simp add: length_grid nat_mult_distrib)
  also have "\<dots> = length (vcolor s)"
    using loops_array_lengths(3) [OF lp] by simp
  finally show ?thesis
    using w by (intro written_full)
qed

text \<open>
  C3. With both colours supplied, for every surface and every patch \<open>(i, j)\<close> of the
  grid, each of the six vertices of the patch has in the colour stream the colour
  \<open>col1\<close> when \<open>(i + j) mod 2 = 0\<close> and \<open>col2\<close> otherwise, and the colour stream is the
  data of the buffer \<open>vertexColor\<close> on the shape.
\<close>

theorem GPS_checkerboard:
  assumes "1 \<le> i" "i \<le> M" "1 \<le> j" "j \<le> N" "k < 6"
  shows "\<exists>r. GenerateParametricSurface obj M N umin umax vmin vmax (Some c1) (Some c2) g = Inr r \<and>
           take 3 (drop (18 * nat ((i - 1) * N + (j - 1)) + 3 * k) (vcolor (locals r))) =
             vec3_list (if (i + j) mod 2 = 0 then c1 else c2) \<and>
           (\<exists>b \<in> set (vertexBuffers (shape r)).
              attrType b = ''vertexColor'' \<and> dataArray b = vcolor (locals r))"
proof -
  have M: "0 \<le> M" and N: "0 \<le> N"
    using assms by simp_all
  then have mn: "0 \<le> M * N"
    by simp
  obtain s g' where lp:
    "loop_i obj M N umin umax vmin vmax (Some c1) (Some c2) 1 (gps_init (M * N * 6), g) = (s, g')"
    by (metis surj_pair)
  note res = GPS_result [OF mn lp]
  note col = GPS_full_color [OF lp M N]
  have "take 3 (drop (6 * 3 * nat ((i - 1) * N + (j - 1)) + 3 * k)
          (concat (map (\<lambda>(i, j).
             concat (replicate 6 (emit_color (patch_color (Some c1) (Some c2) i j)))) (grid M N)))) =
        replicate 6 (emit_color (patch_color (Some c1) (Some c2) i j)) ! k"
    using assms by (rule grid_vertex) (simp add: emit_lengths patch_color_def)
  also have "\<dots> = vec3_list (if (i + j) mod 2 = 0 then c1 else c2)"
    using assms(5) by (simp add: patch_color_def emit_color_def)
  finally have cell: "take 3 (drop (18 * nat ((i - 1) * N + (j - 1)) + 3 * k) (vcolor s)) =
      vec3_list (if (i + j) mod 2 = 0 then c1 else c2)"
    by (simp add: col)
  have "VertexAttributeBuffer_new ''vertexColor'' FLOAT 3 (vcolor s) \<in>
      set (attached obj (Some c1) (Some c2) s)"
    by (simp add: attached_def)
  moreover have "attrType (VertexAttributeBuffer_new ''vertexColor'' FLOAT 3 (vcolor s)) = ''vertexColor''"
    "dataArray (VertexAttributeBuffer_new ''vertexColor'' FLOAT 3 (vcolor s)) = vcolor s"
    by (simp_all add: VertexAttributeBuffer_new_def)
  ultimately have "\<exists>b \<in> set (attached obj (Some c1) (Some c2) s).
      attrType b = ''vertexColor'' \<and> dataArray b = vcolor s"
    by blast
  with cell show ?thesis
    unfolding res by simp
qed

theorem GPS_checkerboard_witness:
  "(1::int) \<le> 2 \<and> (2::int) \<le> 2 \<and> (1::int) \<le> 1 \<and> (1::int) \<le> 3 \<and> (4::nat) < 6 \<and>
   (\<exists>r. GenerateParametricSurface (Torus_obj 2 0.5) 2 3 0 (2 * pi) 0 (2 * pi)
           (Some (1, 0, 0)) (Some (0, 0, 1)) \<lparr>h = 0\<rparr> = Inr r \<and>
           take 3 (drop (18 * nat ((2 - 1) * 3 + (1 - 1)) + 3 * 4) (vcolor (locals r))) =
             vec3_list (if (2 + 1) mod 2 = (0::int) then (1, 0, 0) else (0, 0, 1)) \<and>
           (\<exists>b \<in> set (vertexBuffers (shape r)).
              attrType b = ''vertexColor'' \<and> dataArray b = vcolor (locals r)))"
proof -
  have b: "(1::int) \<le> 2" "(2::int) \<le> 2" "(1::int) \<le> 1" "(1::int) \<le> 3" "(4::nat) < 6"
    by simp_all
  from GPS_checkerboard [OF b, of "Torus_obj 2 0.5" 0 "2 * pi" 0 "2 * pi" "(1, 0, 0)" "(0, 0, 1)" "\<lparr>h = 0\<rparr>"]
  show ?thesis
    using b by (intro conjI)
qed

lemma GPS_full_arrays:
  assumes sv: "surface_values obj P Q T"
    and lp: "loop_i obj M N umin umax vmin vmax col1 col2 1 (gps_init (M * N * 6), g) = (s, g')"
    and "0 \<le> M" "0 \<le> N"
  shows "position obj \<noteq> None \<Longrightarrow> vposition s = concat (map (\<lambda>(i, j).
           concat (map (emit_position obj P) (patch_corners M N umin umax vmin vmax i j))) (grid M N))"
    and "normal obj \<noteq> None \<Longrightarrow> vnormal s = concat (map (\<lambda>(i, j).
           concat (map (emit_normal obj Q) (patch_corners M N umin umax vmin vmax i j))) (grid M N))"
    and "texCoord obj \<noteq> None \<Longrightarrow> vtexcoord s = concat (map (\<lambda>(i, j).
           concat (map (emit_texCoord obj T) (patch_corners M N umin umax vmin vmax i j))) (grid M N))"
proof -
  note st = GPS_final_streams [OF sv lp, unfolded streams_def]
  note len = loops_array_lengths [OF lp]
  have g3: "length (grid M N) * 18 = nat (M * N * 6 * 3)"
    and g2: "length (grid M N) * 12 = nat (M * N * 6 * 2)"
    using assms(3,4) by (simp_all add: length_grid nat_mult_distrib)
  {
    assume p: "position obj \<noteq> None"
    have "length (concat (map (\<lambda>(i, j).
           concat (map (emit_position obj P) (patch_corners M N umin umax vmin vmax i j))) (grid M N)))
        = length (grid M N) * 18"
      by (rule length_concat_uniform)
        (simp add: length_concat_uniform [where n = 3] emit_lengths p patch_corners_length
          split: prod.splits)
    then show "vposition s = concat (map (\<lambda>(i, j).
           concat (map (emit_position obj P) (patch_corners M N umin umax vmin vmax i j))) (grid M N))"
      using st len g3 by (intro written_full [where k = "pos_i s"]) simp_all
  }
  {
    assume p: "normal obj \<noteq> None"
    have "length (concat (map (\<lambda>(i, j).
           concat (map (emit_normal obj Q) (patch_corners M N umin umax vmin vmax i j))) (grid M N)))
        = length (grid M N) * 18"
      by (rule length_concat_uniform)
        (simp add: length_concat_uniform [where n = 3] emit_lengths p patch_corners_length
          split: prod.splits)
    then show "vnormal s = concat (map (\<lambda>(i, j).
           concat (map (emit_normal obj Q) (patch_corners M N umin umax vmin vmax i j))) (grid M N))"
      using st len g3 by (intro written_full [where k = "nor_i s"]) simp_all
  }
  {
    assume p: "texCoord obj \<noteq> None"
    have "length (concat (map (\<lambda>(i, j).
           concat (map (emit_texCoord obj T) (patch_corners M N umin umax vmin vmax i j))) (grid M N)))
        = length (grid M N) * 12"
      by (rule length_concat_uniform)
        (simp add: length_concat_uniform [where n = 2] emit_lengths p patch_corners_length
          split: prod.splits)
    then show "vtexcoord s = concat (map (\<lambda>(i, j).
           concat (map (emit_texCoord obj T) (patch_corners M N umin umax vmin vmax i j))) (grid M N))"
      using st len g2 by (intro written_full [where k = "tex_i s"]) simp_all
  }
qed

lemma attached_data:
  assumes "b \<in> set (attached obj col1 col2 s)"
  shows "dataArray b =
     (if attrType b = ''vertexPosition'' then vposition s
      else if attrType b = ''vertexNormal'' then vnormal s
      else if attrType b = ''vertexTexCoord'' then vtexcoord s
      else vcolor s)"
  using attached_buffers [OF assms] by auto

text \<open>
  C2. Let the methods of the surface return the vectors \<open>P\<close>, \<open>Q\<close>, \<open>T\<close> whatever the
  state of the program. For every patch \<open>(i, j)\<close> with \<open>1 \<le> i \<le> M\<close> and \<open>1 \<le> j \<le> N\<close>
  and every \<open>k < 6\<close>, vertex \<open>6 * ((i - 1) * N + (j - 1)) + k\<close> of each supplied stream
  is the attribute at the \<open>k\<close>-th entry of \<open>patch_corners\<close>: the corners \<open>(u0, v)\<close>,
  \<open>(u0, v0)\<close>, \<open>(u, v0)\<close> of the first triangle and \<open>(u, v)\<close>, \<open>(u0, v)\<close>, \<open>(u, v0)\<close> of
  the second, with \<open>u0\<close>, \<open>u\<close>, \<open>v0\<close>, \<open>v\<close> as the claim gives them. So a patch fills
  exactly six consecutive vertices, and the buffers on the shape hold these arrays.
\<close>

theorem GPS_patch_vertices:
  assumes "1 \<le> i" "i \<le> M" "1 \<le> j" "j \<le> N" "k < 6"
    and sv: "surface_values obj P Q T"
  shows "\<exists>r. GenerateParametricSurface obj M N umin umax vmin vmax col1 col2 g = Inr r \<and>
           (case patch_corners M N umin umax vmin vmax i j ! k of (uu, vv) \<Rightarrow>
              (position obj \<noteq> None \<longrightarrow>
                 take 3 (drop (18 * nat ((i - 1) * N + (j - 1)) + 3 * k) (vposition (locals r))) =
                   vec3_list (P uu vv)) \<and>
              (normal obj \<noteq> None \<longrightarrow>
                 take 3 (drop (18 * nat ((i - 1) * N + (j - 1)) + 3 * k) (vnormal (locals r))) =
                   vec3_list (Q uu vv)) \<and>
              (texCoord obj \<noteq> None \<longrightarrow>
                 take 2 (drop (12 * nat ((i - 1) * N + (j - 1)) + 2 * k) (vtexcoord (locals r))) =
                   vec2_list (T uu vv))) \<and>
           (\<forall>b \<in> set (vertexBuffers (shape r)). dataArray b =
              (if attrType b = ''vertexPosition'' then vposition (locals r)
               else if attrType b = ''vertexNormal'' then vnormal (locals r)
               else if attrType b = ''vertexTexCoord'' then vtexcoord (locals r)
               else vcolor (locals r)))"
proof -
  have M: "0 \<le> M" and N: "0 \<le> N"
    using assms by simp_all
  then have mn: "0 \<le> M * N"
    by simp
  obtain s g' where lp:
    "loop_i obj M N umin umax vmin vmax col1 col2 1 (gps_init (M * N * 6), g) = (s, g')"
    by (metis surj_pair)
  note res = GPS_result [OF mn lp]
  note full = GPS_full_arrays [OF sv lp M N]
  obtain uu vv where uv: "patch_corners M N umin umax vmin vmax i j ! k = (uu, vv)"
    by (metis surj_pair)
  have kc: "k < length (patch_corners M N umin umax vmin vmax i j)"
    using assms(5) by (simp add: patch_corners_length)
  have pos: "take 3 (drop (18 * nat ((i - 1) * N + (j - 1)) + 3 * k) (vposition s)) = vec3_list (P uu vv)"
    if p: "position obj \<noteq> None"
  proof -
    have "take 3 (drop (6 * 3 * nat ((i - 1) * N + (j - 1)) + 3 * k)
          (concat (map (\<lambda>(i, j). concat (map (emit_position obj P)
             (patch_corners M N umin umax vmin vmax i j))) (grid M N)))) =
        map (emit_position obj P) (patch_corners M N umin umax vmin vmax i j) ! k"
      using assms(1-5) by (rule grid_vertex) (simp add: emit_lengths p patch_corners_length)
    also have "\<dots> = vec3_list (P uu vv)"
      using kc p by (auto simp add: uv emit_position_def)
    finally show ?thesis
      by (simp add: full(1) [OF p])
  qed
  have nor: "take 3 (drop (18 * nat ((i - 1) * N + (j - 1)) + 3 * k) (vnormal s)) = vec3_list (Q uu vv)"
    if p: "normal obj \<noteq> None"
  proof -
    have "take 3 (drop (6 * 3 * nat ((i - 1) * N + (j - 1)) + 3 * k)
          (concat (map (\<lambda>(i, j). concat (map (emit_normal obj Q)
             (patch_corners M N umin umax vmin vmax i j))) (grid M N)))) =
        map (emit_normal obj Q) (patch_corners M N umin umax vmin vmax i j) ! k"
      using assms(1-5) by (rule grid_vertex) (simp add: emit_lengths p patch_corners_length)
    also have "\<dots> = vec3_list (Q uu vv)"
      using kc p by (auto simp add: uv emit_normal_def)
    finally show ?thesis
      by (simp add: full(2) [OF p])
  qed
  have tex: "take 2 (drop (12 * nat ((i - 1) * N + (j - 1)) + 2 * k) (vtexcoord s)) = vec2_list (T uu vv)"
    if p: "texCoord obj \<noteq> None"
  proof -
    have "take 2 (drop (6 * 2 * nat ((i - 1) * N + (j - 1)) + 2 * k)
          (concat (map (\<lambda>(i, j). concat (map (emit_texCoord obj T)
             (patch_corners M N umin umax vmin vmax i j))) (grid M N)))) =
        map (emit_texCoord obj T) (patch_corners M N umin umax vmin vmax i j) ! k"
      using assms(1-5) by (rule grid_vertex) (simp add: emit_lengths p patch_corners_length)
    also have "\<dots> = vec2_list (T uu vv)"
      using kc p by (auto simp add: uv emit_texCoord_def)
    finally show ?thesis
      by (simp add: full(3) [OF p])
  qed
  show ?thesis
    unfolding res using pos nor tex attached_data [of _ obj col1 col2 s]
    by (simp add: uv)
qed

theorem GPS_patch_vertices_witness:
  "(1::int) \<le> 2 \<and> (2::int) \<le> 2 \<and> (1::int) \<le> 1 \<and> (1::int) \<le> 3 \<and> (4::nat) < 6 \<and>
   surface_values (Torus_obj 2 0.5)
     (\<lambda>t p. ((2 + 0.5 * cos p) * cos t, (2 + 0.5 * cos p) * sin t, 0.5 * sin p))
     (\<lambda>t p. (cos t * cos p, sin t * cos p, sin p))
     (\<lambda>u v. (u / (2 * pi), v / (2 * pi))) \<and>
   (\<exists>r. GenerateParametricSurface (Torus_obj 2 0.5) 2 3 0 (2 * pi) 0 (2 * pi)
           (Some (1, 0, 0)) (Some (0, 0, 1)) \<lparr>h = 0\<rparr> = Inr r \<and>
           (case patch_corners 2 3 0 (2 * pi) 0 (2 * pi) 2 1 ! 4 of (uu, vv) \<Rightarrow>
              (position (Torus_obj 2 0.5) \<noteq> None \<longrightarrow>
                 take 3 (drop (18 * nat ((2 - 1) * 3 + (1 - 1)) + 3 * 4) (vposition (locals r))) =
                   vec3_list ((2 + 0.5 * cos vv) * cos uu, (2 + 0.5 * cos vv) * sin uu, 0.5 * sin vv)) \<and>
              (normal (Torus_obj 2 0.5) \<noteq> None \<longrightarrow>
                 take 3 (drop (18 * nat ((2 - 1) * 3 + (1 - 1)) + 3 * 4) (vnormal (locals r))) =
                   vec3_list (cos uu * cos vv, sin uu * cos vv, sin vv)) \<and>
              (texCoord (Torus_obj 2 0.5) \<noteq> None \<longrightarrow>
                 take 2 (drop (12 * nat ((2 - 1) * 3 + (1 - 1)) + 2 * 4) (vtexcoord (locals r))) =
                   vec2_list (uu / (2 * pi), vv / (2 * pi)))) \<and>
           (\<forall>b \<in> set (vertexBuffers (shape r)). dataArray b =
              (if attrType b = ''vertexPosition'' then vposition (locals r)
               else if attrType b = ''vertexNormal'' then vnormal (locals r)
               else if attrType b = ''vertexTexCoord'' then vtexcoord (locals r)
               else vcolor (locals r))))"
proof -
  have b: "(1::int) \<le> 2" "(2::int) \<le> 2" "(1::int) \<le> 1" "(1::int) \<le> 3" "(4::nat) < 6"
    by simp_all
  have sv: "surface_values (Torus_obj 2 0.5)
     (\<lambda>t p. ((2 + 0.5 * cos p) * cos t, (2 + 0.5 * cos p) * sin t, 0.5 * sin p))
     (\<lambda>t p. (cos t * cos p, sin t * cos p, sin p))
     (\<lambda>u v. (u / (2 * pi), v / (2 * pi)))"
    by (rule Torus_values)
  from GPS_patch_vertices [OF b sv, of 0 "2 * pi" 0 "2 * pi" "Some (1, 0, 0)" "Some (0, 0, 1)" "\<lparr>h = 0\<rparr>"]
  show ?thesis
    using b sv by (intro conjI) 
qed

lemma makeVertex_absent:
  "position obj = None \<Longrightarrow>
     vposition (fst (makeVertex obj uu vv c sg)) = vposition (fst sg) \<and>
     pos_i (fst (makeVertex obj uu vv c sg)) = pos_i (fst sg)"
  "normal obj = None \<Longrightarrow>
     vnormal (fst (makeVertex obj uu vv c sg)) = vnormal (fst sg) \<and>
     nor_i (fst (makeVertex obj uu vv c sg)) = nor_i (fst sg)"
  "texCoord obj = None \<Longrightarrow>
     vtexcoord (fst (makeVertex obj uu vv c sg)) = vtexcoord (fst sg) \<and>
     tex_i (fst (makeVertex obj uu vv c sg)) = tex_i (fst sg)"
  "c = None \<Longrightarrow>
     vcolor (fst (makeVertex obj uu vv c sg)) = vcolor (fst sg) \<and>
     col_i (fst (makeVertex obj uu vv c sg)) = col_i (fst sg)"
  by (cases sg; simp add: makeVertex_def setTexCoord_def setPosition_def setNormal_def
      setColor_def split: option.splits prod.splits)+

lemma patch_absent:
  "position obj = None \<Longrightarrow>
     vposition (fst (patch obj M N umin umax vmin vmax col1 col2 i j sg)) = vposition (fst sg) \<and>
     pos_i (fst (patch obj M N umin umax vmin vmax col1 col2 i j sg)) = pos_i (fst sg)"
  "normal obj = None \<Longrightarrow>
     vnormal (fst (patch obj M N umin umax vmin vmax col1 col2 i j sg)) = vnormal (fst sg) \<and>
     nor_i (fst (patch obj M N umin umax vmin vmax col1 col2 i j sg)) = nor_i (fst sg)"
  "texCoord obj = None \<Longrightarrow>
     vtexcoord (fst (patch obj M N umin umax vmin vmax col1 col2 i j sg)) = vtexcoord (fst sg) \<and>
     tex_i (fst (patch obj M N umin umax vmin vmax col1 col2 i j sg)) = tex_i (fst sg)"
  "col1 = None \<Longrightarrow> col2 = None \<Longrightarrow>
     vcolor (fst (patch obj M N umin umax vmin vmax col1 col2 i j sg)) = vcolor (fst sg) \<and>
     col_i (fst (patch obj M N umin umax vmin vmax col1 col2 i j sg)) = col_i (fst sg)"
  by (simp_all add: patch_def Let_def makeVertex_absent)

lemma run_absent:
  "position obj = None \<Longrightarrow>
     vposition (fst (fold (\<lambda>(i, j). patch obj M N umin umax vmin vmax col1 col2 i j) cs sg)) =
       vposition (fst sg) \<and>
     pos_i (fst (fold (\<lambda>(i, j). patch obj M N umin umax vmin vmax col1 col2 i j) cs sg)) =
       pos_i (fst sg)"
  "normal obj = None \<Longrightarrow>
     vnormal (fst (fold (\<lambda>(i, j). patch obj M N umin umax vmin vmax col1 col2 i j) cs sg)) =
       vnormal (fst sg) \<and>
     nor_i (fst (fold (\<lambda>(i, j). patch obj M N umin umax vmin vmax col1 col2 i j) cs sg)) =
       nor_i (fst sg)"
  "texCoord obj = None \<Longrightarrow>
     vtexcoord (fst (fold (\<lambda>(i, j). patch obj M N umin umax vmin vmax col1 col2 i j) cs sg)) =
       vtexcoord (fst sg) \<and>
     tex_i (fst (fold (\<lambda>(i, j). patch obj M N umin umax vmin vmax col1 col2 i j) cs sg)) =
       tex_i (fst sg)"
  "col1 = None \<Longrightarrow> col2 = None \<Longrightarrow>
     vcolor (fst (fold (\<lambda>(i, j). patch obj M N umin umax vmin vmax col1 col2 i j) cs sg)) =
       vcolor (fst sg) \<and>
     col_i (fst (fold (\<lambda>(i, j). patch obj M N umin umax vmin vmax col1 col2 i j) cs sg)) =
       col_i (fst sg)"
  by (induction cs arbitrary: sg; simp add: patch_absent split: prod.splits)+

lemma loops_absent:
  assumes lp: "loop_i obj M N umin umax vmin vmax col1 col2 1 (gps_init nV, g) = (s, g')"
  shows "position obj = None \<Longrightarrow> pos_i s = 0 \<and> vposition s = replicate (nat (nV * 3)) 0"
    and "normal obj = None \<Longrightarrow> nor_i s = 0 \<and> vnormal s = replicate (nat (nV * 3)) 0"
    and "texCoord obj = None \<Longrightarrow> tex_i s = 0 \<and> vtexcoord s = replicate (nat (nV * 2)) 0"
    and "col1 = None \<Longrightarrow> col2 = None \<Longrightarrow> col_i s = 0 \<and> vcolor s = replicate (nat (nV * 3)) 0"
proof -
  have s: "s = fst (fold (\<lambda>(i, j). patch obj M N umin umax vmin vmax col1 col2 i j) (grid M N)
                 (gps_init nV, g))"
    using lp by (simp add: loops_grid)
  show "position obj = None \<Longrightarrow> pos_i s = 0 \<and> vposition s = replicate (nat (nV * 3)) 0"
    unfolding s by (simp add: run_absent) (simp add: gps_init_def)
  show "normal obj = None \<Longrightarrow> nor_i s = 0 \<and> vnormal s = replicate (nat (nV * 3)) 0"
    unfolding s by (simp add: run_absent) (simp add: gps_init_def)
  show "texCoord obj = None \<Longrightarrow> tex_i s = 0 \<and> vtexcoord s = replicate (nat (nV * 2)) 0"
    unfolding s by (simp add: run_absent) (simp add: gps_init_def)
  show "col1 = None \<Longrightarrow> col2 = None \<Longrightarrow> col_i s = 0 \<and> vcolor s = replicate (nat (nV * 3)) 0"
    unfolding s by (simp add: run_absent) (simp add: gps_init_def)
qed

text \<open>
  C4. Whenever the call returns (\<open>M * N \<ge> 0\<close>), the buffers on the shape are exactly
  those of the attributes supplied, in the order position, normal, texture coordinate,
  colour (the colour only when both colours are given). An attribute that is not supplied
  is never written: its write index stays 0 and its local array stays as allocated, all
  zeros. In particular a surface with only a position method, tessellated with
  \<open>M = 2\<close>, \<open>N = 1\<close> and no colours, gets a single buffer, \<open>vertexPosition\<close>, of 36 numbers.
\<close>

theorem GPS_attaches_supplied_only:
  assumes "0 \<le> M * N"
  shows "(\<exists>r. GenerateParametricSurface obj M N umin umax vmin vmax col1 col2 g = Inr r \<and>
            map attrType (vertexBuffers (shape r)) =
              (if position obj \<noteq> None then [''vertexPosition''] else []) @
              (if normal obj \<noteq> None then [''vertexNormal''] else []) @
              (if texCoord obj \<noteq> None then [''vertexTexCoord''] else []) @
              (if col1 \<noteq> None \<and> col2 \<noteq> None then [''vertexColor''] else []) \<and>
            (position obj = None \<longrightarrow>
               pos_i (locals r) = 0 \<and> vposition (locals r) = replicate (nat (M * N * 6 * 3)) 0) \<and>
            (normal obj = None \<longrightarrow>
               nor_i (locals r) = 0 \<and> vnormal (locals r) = replicate (nat (M * N * 6 * 3)) 0) \<and>
            (texCoord obj = None \<longrightarrow>
               tex_i (locals r) = 0 \<and> vtexcoord (locals r) = replicate (nat (M * N * 6 * 2)) 0) \<and>
            (col1 = None \<and> col2 = None \<longrightarrow>
               col_i (locals r) = 0 \<and> vcolor (locals r) = replicate (nat (M * N * 6 * 3)) 0)) \<and>
         (\<exists>r b. GenerateParametricSurface \<lparr>position = Some f, normal = None, texCoord = None\<rparr>
                   2 1 umin umax vmin vmax None None g = Inr r \<and>
            vertexBuffers (shape r) = [b] \<and> attrType b = ''vertexPosition'' \<and>
            numElements b = 3 \<and> dataArray b = vposition (locals r) \<and>
            length (dataArray b) = 36)"
proof (rule conjI)
  obtain s g' where lp:
    "loop_i obj M N umin umax vmin vmax col1 col2 1 (gps_init (M * N * 6), g) = (s, g')"
    by (metis surj_pair)
  note res = GPS_result [OF assms lp]
  note ab = loops_absent [OF lp]
  have names: "map attrType (attached obj col1 col2 s) =
              (if position obj \<noteq> None then [''vertexPosition''] else []) @
              (if normal obj \<noteq> None then [''vertexNormal''] else []) @
              (if texCoord obj \<noteq> None then [''vertexTexCoord''] else []) @
              (if col1 \<noteq> None \<and> col2 \<noteq> None then [''vertexColor''] else [])"
    by (simp add: attached_def VertexAttributeBuffer_new_def)
  show "\<exists>r. GenerateParametricSurface obj M N umin umax vmin vmax col1 col2 g = Inr r \<and>
            map attrType (vertexBuffers (shape r)) =
              (if position obj \<noteq> None then [''vertexPosition''] else []) @
              (if normal obj \<noteq> None then [''vertexNormal''] else []) @
              (if texCoord obj \<noteq> None then [''vertexTexCoord''] else []) @
              (if col1 \<noteq> None \<and> col2 \<noteq> None then [''vertexColor''] else []) \<and>
            (position obj = None \<longrightarrow>
               pos_i (locals r) = 0 \<and> vposition (locals r) = replicate (nat (M * N * 6 * 3)) 0) \<and>
            (normal obj = None \<longrightarrow>
               nor_i (locals r) = 0 \<and> vnormal (locals r) = replicate (nat (M * N * 6 * 3)) 0) \<and>
            (texCoord obj = None \<longrightarrow>
               tex_i (locals r) = 0 \<and> vtexcoord (locals r) = replicate (nat (M * N * 6 * 2)) 0) \<and>
            (col1 = None \<and> col2 = None \<longrightarrow>
               col_i (locals r) = 0 \<and> vcolor (locals r) = replicate (nat (M * N * 6 * 3)) 0)"
    unfolding res using ab names by simp
next
  define po :: "'a Surface" where "po = \<lparr>position = Some f, normal = None, texCoord = None\<rparr>"
  obtain s g' where lp:
    "loop_i po 2 1 umin umax vmin vmax None None 1 (gps_init (2 * 1 * 6), g) = (s, g')"
    by (metis surj_pair)
  have "(0::int) \<le> 2 * 1"
    by simp
  note res = GPS_result [OF this lp]
  have len: "length (vposition s) = 36"
    using loops_array_lengths(1) [OF lp] by simp
  have "attached po None None s = [VertexAttributeBuffer_new ''vertexPosition'' FLOAT 3 (vposition s)]"
    by (simp add: attached_def po_def)
  then show "\<exists>r b. GenerateParametricSurface \<lparr>position = Some f, normal = None, texCoord = None\<rparr>
                   2 1 umin umax vmin vmax None None g = Inr r \<and>
            vertexBuffers (shape r) = [b] \<and> attrType b = ''vertexPosition'' \<and>
            numElements b = 3 \<and> dataArray b = vposition (locals r) \<and>
            length (dataArray b) = 36"
    unfolding po_def [symmetric] res using len by (simp add: VertexAttributeBuffer_new_def)
qed

theorem GPS_attaches_supplied_only_witness:
  "(0::int) \<le> 2 * 1 \<and>
   (\<exists>r. GenerateParametricSurface flat_obj 2 1 0 1 0 1 None None () = Inr r \<and>
         map attrType (vertexBuffers (shape r)) =
           (if position flat_obj \<noteq> None then [''vertexPosition''] else []) @
           (if normal flat_obj \<noteq> None then [''vertexNormal''] else []) @
           (if texCoord flat_obj \<noteq> None then [''vertexTexCoord''] else []) @
           (if (None :: vec3 option) \<noteq> None \<and> (None :: vec3 option) \<noteq> None
            then [''vertexColor''] else []) \<and>
         (position flat_obj = None \<longrightarrow>
            pos_i (locals r) = 0 \<and> vposition (locals r) = replicate (nat (2 * 1 * 6 * 3)) 0) \<and>
         (normal flat_obj = None \<longrightarrow>
            nor_i (locals r) = 0 \<and> vnormal (locals r) = replicate (nat (2 * 1 * 6 * 3)) 0) \<and>
         (texCoord flat_obj = None \<longrightarrow>
            tex_i (locals r) = 0 \<and> vtexcoord (locals r) = replicate (nat (2 * 1 * 6 * 2)) 0) \<and>
         ((None :: vec3 option) = None \<and> (None :: vec3 option) = None \<longrightarrow>
            col_i (locals r) = 0 \<and> vcolor (locals r) = replicate (nat (2 * 1 * 6 * 3)) 0)) \<and>
   (\<exists>r b. GenerateParametricSurface
             \<lparr>position = Some (\<lambda>u v g. ((u, v, 0), g)), normal = None, texCoord = None\<rparr>
             2 1 0 1 0 1 None None () = Inr r \<and>
           vertexBuffers (shape r) = [b] \<and> attrType b = ''vertexPosition'' \<and>
           numElements b = 3 \<and> dataArray b = vposition (locals r) \<and>
           length (dataArray b) = 36)"
proof -
  have b: "(0::int) \<le> 2 * 1"
    by simp
  note t = GPS_attaches_supplied_only [of 2 1 flat_obj 0 1 0 1 None None "()"
      "\<lambda>u v g. ((u, v, 0), g)", OF b]
  show ?thesis
    by (rule conjI [OF b t])
qed

lemma state_independent_values:
  assumes "state_independent obj"
  shows "\<exists>P Q T. surface_values obj P Q T"
proof -
  fix g0 :: 'a
  define P where "P = (\<lambda>u v. case position obj of Some f \<Rightarrow> fst (f u v g0) | None \<Rightarrow> (0, 0, 0))"
  define Q where "Q = (\<lambda>u v. case normal obj of Some f \<Rightarrow> fst (f u v g0) | None \<Rightarrow> (0, 0, 0))"
  define T where "T = (\<lambda>u v. case texCoord obj of Some f \<Rightarrow> fst (f u v g0) | None \<Rightarrow> (0, 0))"
  have "surface_values obj P Q T"
    unfolding surface_values_def P_def Q_def T_def
    using assms by (auto simp add: state_independent_def)
  then show ?thesis
    by blast
qed

lemma written_unique:
  assumes "written a k w" "written a' k' w" "length a = length a'"
  shows "a = a'" "k = k'"
proof -
  have "a = take (length a) (w @ replicate (length a) 0)"
    using assms(1) unfolding written_def by (rule conjunct2)
  also have "\<dots> = take (length a') (w @ replicate (length a') 0)"
    by (simp only: assms(3))
  also have "\<dots> = a'"
    using assms(2) by (simp add: written_def)
  finally show "a = a'" .
  show "k = k'"
    using assms(1,2) by (simp add: written_def)
qed

lemma streams_unique:
  assumes "streams s wp wn wt wc" "streams s' wp wn wt wc" "array_lengths s = array_lengths s'"
  shows "s = s'"
proof (rule gps_vars.equality)
  show "vposition s = vposition s'" "pos_i s = pos_i s'"
    using assms written_unique [of "vposition s" "pos_i s" wp "vposition s'" "pos_i s'"]
    by (simp_all add: streams_def array_lengths_def)
  show "vnormal s = vnormal s'" "nor_i s = nor_i s'"
    using assms written_unique [of "vnormal s" "nor_i s" wn "vnormal s'" "nor_i s'"]
    by (simp_all add: streams_def array_lengths_def)
  show "vtexcoord s = vtexcoord s'" "tex_i s = tex_i s'"
    using assms written_unique [of "vtexcoord s" "tex_i s" wt "vtexcoord s'" "tex_i s'"]
    by (simp_all add: streams_def array_lengths_def)
  show "vcolor s = vcolor s'" "col_i s = col_i s'"
    using assms written_unique [of "vcolor s" "col_i s" wc "vcolor s'" "col_i s'"]
    by (simp_all add: streams_def array_lengths_def)
qed simp

lemma GPS_RangeError:
  assumes "M * N < 0"
  shows "GenerateParametricSurface obj M N umin umax vmin vmax col1 col2 g = Inl RangeError"
  using assms by (simp add: GenerateParametricSurface_def Float32Array_def)

text \<open>
  C7. For a surface whose methods are independent of the state of the program, two
  calls with the same arguments give the same outcome in whatever states \<open>g1\<close> and \<open>g2\<close>
  of the program they start (so also when the second starts where the first ended):
  the same error, or the same shape with the same buffers, the same local arrays and
  write indices, and the same log.
\<close>

theorem GPS_deterministic:
  assumes "state_independent obj"
  shows "map_sum id (\<lambda>r. (shape r, locals r, console r))
           (GenerateParametricSurface obj M N umin umax vmin vmax col1 col2 g1) =
         map_sum id (\<lambda>r. (shape r, locals r, console r))
           (GenerateParametricSurface obj M N umin umax vmin vmax col1 col2 g2)"
proof (cases "M * N < 0")
  case True
  then show ?thesis
    by (simp add: GPS_RangeError)
next
  case False
  then have mn: "0 \<le> M * N"
    by simp
  obtain P Q T where sv: "surface_values obj P Q T"
    using state_independent_values [OF assms] by blast
  obtain s1 g1' where lp1:
    "loop_i obj M N umin umax vmin vmax col1 col2 1 (gps_init (M * N * 6), g1) = (s1, g1')"
    by (metis surj_pair)
  obtain s2 g2' where lp2:
    "loop_i obj M N umin umax vmin vmax col1 col2 1 (gps_init (M * N * 6), g2) = (s2, g2')"
    by (metis surj_pair)
  have "array_lengths s1 = array_lengths s2"
    using loops_lengths [of obj M N umin umax vmin vmax col1 col2 "M * N * 6" g1]
      loops_lengths [of obj M N umin umax vmin vmax col1 col2 "M * N * 6" g2] lp1 lp2
    by simp
  with GPS_final_streams [OF sv lp1] GPS_final_streams [OF sv lp2] have "s1 = s2"
    by (rule streams_unique)
  then show ?thesis
    by (simp add: GPS_result [OF mn lp1] GPS_result [OF mn lp2])
qed

theorem GPS_deterministic_witness:
  "state_independent (Torus_obj 2 0.5) \<and>
   map_sum id (\<lambda>r. (shape r, locals r, console r))
     (GenerateParametricSurface (Torus_obj 2 0.5) 2 3 0 (2 * pi) 0 (2 * pi)
        (Some (1, 0, 0)) (Some (0, 0, 1)) \<lparr>h = 0\<rparr>) =
   map_sum id (\<lambda>r. (shape r, locals r, console r))
     (GenerateParametricSurface (Torus_obj 2 0.5) 2 3 0 (2 * pi) 0 (2 * pi)
        (Some (1, 0, 0)) (Some (0, 0, 1)) \<lparr>h = 7\<rparr>)"
proof (rule conjI)
  show si: "state_independent (Torus_obj 2 0.5)"
    by (rule Torus_state_independent)
  show "map_sum id (\<lambda>r. (shape r, locals r, console r))
     (GenerateParametricSurface (Torus_obj 2 0.5) 2 3 0 (2 * pi) 0 (2 * pi)
        (Some (1, 0, 0)) (Some (0, 0, 1)) \<lparr>h = 0\<rparr>) =
   map_sum id (\<lambda>r. (shape r, locals r, console r))
     (GenerateParametricSurface (Torus_obj 2 0.5) 2 3 0 (2 * pi) 0 (2 * pi)
        (Some (1, 0, 0)) (Some (0, 0, 1)) \<lparr>h = 7\<rparr>)"
    using si by (rule GPS_deterministic)
qed

lemma js_rem_nonneg: "0 \<le> a \<Longrightarrow> js_rem a 2 = a mod 2"
  by (simp add: js_rem_def)

lemma sphere_loop_k_Some:
  assumes "0 \<le> i" "0 \<le> j"
  shows "k \<le> 6 \<Longrightarrow> sphere_loop_k (Some c1) (Some c2) i j k cl =
           Inr (cl @ concat (replicate (6 - k) (vec3_list (sphere_color c1 c2 i j))))"
proof (induction "6 - k" arbitrary: k cl)
  case 0
  then have "k = 6"
    by simp
  then show ?case
    by (subst sphere_loop_k.simps) simp
next
  case (Suc n)
  then have k: "k < 6" and n: "n = 6 - (k + 1)" and k1: "k + 1 \<le> 6"
    by simp_all
  have rep: "6 - k = Suc (6 - (k + 1))"
    using k by simp
  obtain a0 a1 a2 where c1: "c1 = (a0, a1, a2)"
    by (metis surj_pair)
  obtain b0 b1 b2 where c2: "c2 = (b0, b1, b2)"
    by (metis surj_pair)
  show ?case
  proof (cases "i mod 2 + j mod 2 = 1")
    case True
    then show ?thesis
      using k assms Suc.hyps(1) [OF n k1, of "cl @ [a0] @ [a1] @ [a2]"]
      by (subst sphere_loop_k.simps)
        (simp add: js_rem_nonneg c1 rep sphere_color_def vec3_list_def)
  next
    case False
    then show ?thesis
      using k assms Suc.hyps(1) [OF n k1, of "cl @ [b0] @ [b1] @ [b2]"]
      by (subst sphere_loop_k.simps)
        (simp add: js_rem_nonneg c2 rep sphere_color_def vec3_list_def)
  qed
qed

lemma sphere_patch_Some:
  assumes "0 \<le> i" "0 \<le> j"
  shows "\<exists>ls'. sphere_patch nz r N M (Some c1) (Some c2) i j ls = Inr ls' \<and>
           cList ls' = cList ls @ concat (replicate 6 (vec3_list (sphere_color c1 c2 i j)))"
  using sphere_loop_k_Some [OF assms, of 0 c1 c2 "cList ls"]
  by (simp add: sphere_patch_def Let_def split: prod.splits)

lemma sphere_loop_j_Some:
  assumes "c1o = Some c1" "c2o = Some c2" "0 \<le> i" "1 \<le> j"
  shows "\<exists>ls'. sphere_loop_j nz r N M c1o c2o i j ls = Inr ls' \<and>
           cList ls' = cList ls @
             concat (map (\<lambda>j. concat (replicate 6 (vec3_list (sphere_color c1 c2 i j)))) [j..M])"
  using assms
proof (induction nz r N M c1o c2o i j ls rule: sphere_loop_j.induct)
  case (1 nz r N M c1o c2o i j ls)
  show ?case
  proof (cases "j \<le> M")
    case True
    have j0: "0 \<le> j"
      using "1.prems" by simp
    obtain ls1 where p: "sphere_patch nz r N M c1o c2o i j ls = Inr ls1"
      and c: "cList ls1 = cList ls @ concat (replicate 6 (vec3_list (sphere_color c1 c2 i j)))"
      using sphere_patch_Some [OF "1.prems"(3) j0, of nz r N M c1 c2 ls] "1.prems"(1,2) by auto
    have "1 \<le> j + 1"
      using "1.prems" by simp
    from "1.IH" [OF True p "1.prems"(1,2,3) this]
    obtain ls' where l: "sphere_loop_j nz r N M c1o c2o i (j + 1) ls1 = Inr ls'"
      and c': "cList ls' = cList ls1 @
             concat (map (\<lambda>j. concat (replicate 6 (vec3_list (sphere_color c1 c2 i j)))) [j + 1..M])"
      by blast
    have up: "[j..M] = j # [j + 1..M]"
      using True by (rule upto_rec1)
    have "sphere_loop_j nz r N M c1o c2o i j ls = Inr ls'"
      using True p l by (subst sphere_loop_j.simps) simp
    moreover have "cList ls' = cList ls @
             concat (map (\<lambda>j. concat (replicate 6 (vec3_list (sphere_color c1 c2 i j)))) [j..M])"
      by (simp add: c' c up)
    ultimately show ?thesis
      by blast
  next
    case False
    then show ?thesis
      by (subst sphere_loop_j.simps) simp
  qed
qed

lemma sphere_loop_i_Some:
  assumes "c1o = Some c1" "c2o = Some c2" "1 \<le> i"
  shows "\<exists>ls'. sphere_loop_i nz r N M c1o c2o i ls = Inr ls' \<and>
           cList ls' = cList ls @
             concat (map (\<lambda>i. concat (map (\<lambda>j. concat (replicate 6
                (vec3_list (sphere_color c1 c2 i j)))) [1..M])) [i..N])"
  using assms
proof (induction nz r N M c1o c2o i ls rule: sphere_loop_i.induct)
  case (1 nz r N M c1o c2o i ls)
  show ?case
  proof (cases "i \<le> N")
    case True
    have i0: "0 \<le> i"
      using "1.prems" by simp
    obtain ls1 where p: "sphere_loop_j nz r N M c1o c2o i 1 ls = Inr ls1"
      and c: "cList ls1 = cList ls @
             concat (map (\<lambda>j. concat (replicate 6 (vec3_list (sphere_color c1 c2 i j)))) [1..M])"
      using sphere_loop_j_Some [OF "1.prems"(1,2) i0, of 1 nz r N M ls] by auto
    have "1 \<le> i + 1"
      using "1.prems" by simp
    from "1.IH" [OF True p "1.prems"(1,2) this]
    obtain ls' where l: "sphere_loop_i nz r N M c1o c2o (i + 1) ls1 = Inr ls'"
      and c': "cList ls' = cList ls1 @
             concat (map (\<lambda>i. concat (map (\<lambda>j. concat (replicate 6
                (vec3_list (sphere_color c1 c2 i j)))) [1..M])) [i + 1..N])"
      by blast
    have up: "[i..N] = i # [i + 1..N]"
      using True by (rule upto_rec1)
    have "sphere_loop_i nz r N M c1o c2o i ls = Inr ls'"
      using True p l by (subst sphere_loop_i.simps) simp
    moreover have "cList ls' = cList ls @
             concat (map (\<lambda>i. concat (map (\<lambda>j. concat (replicate 6
                (vec3_list (sphere_color c1 c2 i j)))) [1..M])) [i..N])"
      by (simp add: c' c up)
    ultimately show ?thesis
      by blast
  next
    case False
    then show ?thesis
      by (subst sphere_loop_i.simps) simp
  qed
qed

lemma concat_rows:
  "concat (map (\<lambda>i. concat (map (F i) ys)) xs) =
   concat (map (\<lambda>(i, j). F i j) (concat (map (\<lambda>i. map (Pair i) ys) xs)))"
  by (induction xs) (simp_all add: comp_def)

text \<open>
  C9. The sphere runs its own two loops (\<open>i\<close> over \<open>1..N\<close> outside, \<open>j\<close> over \<open>1..M\<close>
  inside) and never calls \<open>GenerateParametricSurface\<close>. With both colours given it
  returns a shape whose buffers are position, colour, normal and texture coordinate, in
  this order, and in the colour buffer each of the six vertices of the patch \<open>(i, j)\<close>
  holds the first colour when \<open>i mod 2 + j mod 2 = 1\<close> and the second colour otherwise.
\<close>

theorem Sphere_checkerboard:
  assumes "1 \<le> i" "i \<le> N" "1 \<le> j" "j \<le> M" "k < 6"
  shows "\<exists>sh lg. Sphere nz r N M (Some c1) (Some c2) = Inr (sh, lg) \<and>
           map attrType (vertexBuffers sh) =
             [''vertexPosition'', ''vertexColor'', ''vertexNormal'', ''vertexTexCoord''] \<and>
           take 3 (drop (18 * nat ((i - 1) * M + (j - 1)) + 3 * k) (dataArray (vertexBuffers sh ! 1))) =
             vec3_list (if i mod 2 + j mod 2 = 1 then c1 else c2)"
proof -
  obtain ls where lp: "sphere_loop_i nz r N M (Some c1) (Some c2) 1
        \<lparr>vList = [], nList = [], tList = [], cList = []\<rparr> = Inr ls"
    and cl: "cList ls = concat (map (\<lambda>i. concat (map (\<lambda>j. concat (replicate 6
                (vec3_list (sphere_color c1 c2 i j)))) [1..M])) [1..N])"
    using sphere_loop_i_Some [of "Some c1" c1 "Some c2" c2 1 nz r N M
        "\<lparr>vList = [], nList = [], tList = [], cList = []\<rparr>"]
    by auto
  have cl': "cList ls = concat (map (\<lambda>(i, j). concat (replicate 6
                (vec3_list (sphere_color c1 c2 i j)))) (grid N M))"
    unfolding cl grid_def by (rule concat_rows)
  have "take 3 (drop (6 * 3 * nat ((i - 1) * M + (j - 1)) + 3 * k)
          (concat (map (\<lambda>(i, j). concat (replicate 6
                (vec3_list (sphere_color c1 c2 i j)))) (grid N M)))) =
        replicate 6 (vec3_list (sphere_color c1 c2 i j)) ! k"
    using assms by (rule grid_vertex) (simp add: vec3_list_def split: prod.splits)
  then have cell: "take 3 (drop (18 * nat ((i - 1) * M + (j - 1)) + 3 * k) (cList ls)) =
      vec3_list (if i mod 2 + j mod 2 = 1 then c1 else c2)"
    using assms(5) by (simp add: cl' sphere_color_def)
  show ?thesis
    using cell
    by (simp add: Sphere_def lp Let_def addVertexAttribute_def VertexAttributeBuffer_new_def
        VertexBasedShape_new_def split: prod.splits)
qed

theorem Sphere_checkerboard_witness:
  "(1::int) \<le> 2 \<and> (2::int) \<le> 2 \<and> (1::int) \<le> 1 \<and> (1::int) \<le> 3 \<and> (4::nat) < 6 \<and>
   (\<exists>sh lg. Sphere (\<lambda>v. v) 1 2 3 (Some (1, 0, 0)) (Some (0, 0, 1)) = Inr (sh, lg) \<and>
           map attrType (vertexBuffers sh) =
             [''vertexPosition'', ''vertexColor'', ''vertexNormal'', ''vertexTexCoord''] \<and>
           take 3 (drop (18 * nat ((2 - 1) * 3 + (1 - 1)) + 3 * 4) (dataArray (vertexBuffers sh ! 1))) =
             vec3_list (if (2::int) mod 2 + 1 mod 2 = 1 then (1, 0, 0) else (0, 0, 1)))"
proof -
  have b: "(1::int) \<le> 2" "(2::int) \<le> 2" "(1::int) \<le> 1" "(1::int) \<le> 3" "(4::nat) < 6"
    by simp_all
  from Sphere_checkerboard [OF b, of "\<lambda>v. v" 1 "(1, 0, 0)" "(0, 0, 1)"]
  show ?thesis
    using b by (intro conjI)
qed

end
